theory Spec2Isabelle
  imports
    Complex_Main
    "HOL-Library.Word"
    "HOL-Library.Char_ord"
    "HOL-Library.List_Lexorder"
    "HOL-Library.Product_Lexorder"
begin

section \<open>Retrochat: the encrypted vault, message repository, backup and key derivation\<close>

text \<open>
  A shallow embedding of the TypeScript sources of the Retrochat core.

  Conventions of the embedding:
  \<^item> a JavaScript string is a \<open>string\<close>, a list of code units below 256; the order \<open><\<close> on
    strings is the code-unit order that JavaScript's relational operators, the default
    \<open>Array.prototype.sort\<close> and IndexedDB keys use;
  \<^item> a \<open>Uint8Array\<close> is a list of 8-bit words;
  \<^item> a thrown exception or a rejected promise is \<open>Inl e\<close>, a returned value is \<open>Inr v\<close>;
  \<^item> the IndexedDB database is an explicit state that every storage function takes and returns;
    the state also records, in order, the requests that were issued against it. The schema
    of the database (its version, its object stores and their indexes) is a state of its
    own, which \<open>getDb\<close> upgrades; only \<open>listMessages\<close> depends on it;
  \<^item> a transaction is active while the function only awaits its own requests; once the
    function awaits anything else, the transaction has finished when the function resumes;
  \<^item> the cryptographic primitives of WebCrypto and of the noble libraries, the clock and the
    random generator are not part of the repository: the primitives are the fields of a
    record that every function using them takes, the clock reading and the random bytes of a
    call are arguments of that call.
\<close>

subsection \<open>Bytes, hexadecimal text and UTF-8\<close>

type_synonym byte = "8 word"
type_synonym bytes = "byte list"

text \<open>\<open>b.toString(16).padStart(2, '0')\<close> for a byte \<open>b\<close>, and the \<open>toHex\<close> helper that every
  module repeats: \<open>Array.from(bytes).map(...).join('')\<close>.\<close>

definition hexDigit :: "nat \<Rightarrow> char" where
  "hexDigit n = ''0123456789abcdef'' ! (n mod 16)"

definition byteToHex :: "byte \<Rightarrow> string" where
  "byteToHex b = [hexDigit (unat b div 16), hexDigit (unat b mod 16)]"

definition toHex :: "bytes \<Rightarrow> string" where
  "toHex bs = concat (map byteToHex bs)"

text \<open>The value of a hexadecimal digit, the test \<open>[0-9a-fA-F]\<close>, and the decoding of a string
  of digit pairs, \<open>None\<close> when the length is odd or a character is not a digit.\<close>

definition hexVal :: "char \<Rightarrow> nat option" where
  "hexVal c = (let n = (of_char c :: nat) in
     if 48 \<le> n \<and> n \<le> 57 then Some (n - 48)
     else if 97 \<le> n \<and> n \<le> 102 then Some (n - 87)
     else if 65 \<le> n \<and> n \<le> 70 then Some (n - 55)
     else None)"

fun hexPairs :: "string \<Rightarrow> bytes option" where
  "hexPairs [] = Some []"
| "hexPairs [c] = None"
| "hexPairs (a # b # cs) =
     (case (hexVal a, hexVal b, hexPairs cs) of
        (Some h, Some l, Some bs) \<Rightarrow> Some (of_nat (16 * h + l) # bs)
      | _ \<Rightarrow> None)"

definition isHexChar :: "char \<Rightarrow> bool" where
  "isHexChar c = (hexVal c \<noteq> None)"

text \<open>\<open>new TextEncoder().encode(s)\<close> and noble's \<open>utf8ToBytes\<close>: a code unit below 128 is one
  byte, a code unit from 128 to 255 is two.\<close>

definition utf8Char :: "char \<Rightarrow> bytes" where
  "utf8Char c = (let n = (of_char c :: nat) in
     if n < 128 then [of_nat n] else [of_nat (192 + n div 64), of_nat (128 + n mod 64)])"

definition utf8Encode :: "string \<Rightarrow> bytes" where
  "utf8Encode s = concat (map utf8Char s)"

subsection \<open>Errors\<close>

datatype js_error =
    Error string
  | TypeError string
  | SyntaxError string
  | DOMException string
  | ZodError string
  | ConversationKeyError string
  | X25519ValidationError string

text \<open>\<open>error.message\<close>.\<close>

fun error_message :: "js_error \<Rightarrow> string" where
  "error_message (Error m) = m"
| "error_message (TypeError m) = m"
| "error_message (SyntaxError m) = m"
| "error_message (DOMException m) = m"
| "error_message (ZodError m) = m"
| "error_message (ConversationKeyError m) = m"
| "error_message (X25519ValidationError m) = m"

subsection \<open>JavaScript values\<close>

text \<open>A \<open>number\<close>: the finite ones are rationals, and \<open>NaN\<close> and the infinities are kept
  apart because the validators test for them.\<close>

datatype jsnum = Fin rat | NaN | PosInfinity | NegInfinity

definition isInteger :: "jsnum \<Rightarrow> bool" where
  "isInteger n = (case n of Fin r \<Rightarrow> of_int \<lfloor>r\<rfloor> = r | _ \<Rightarrow> False)"

fun num_lt :: "jsnum \<Rightarrow> jsnum \<Rightarrow> bool" where
  "num_lt NaN _ = False"
| "num_lt _ NaN = False"
| "num_lt (Fin a) (Fin b) = (a < b)"
| "num_lt (Fin a) PosInfinity = True"
| "num_lt (Fin a) NegInfinity = False"
| "num_lt PosInfinity _ = False"
| "num_lt NegInfinity NegInfinity = False"
| "num_lt NegInfinity _ = True"

text \<open>A value of type \<open>unknown\<close>. An object is the list of its own properties.\<close>

datatype jsval =
    JUndefined
  | JNull
  | JBool bool
  | JNum jsnum
  | JStr string
  | JArr "jsval list"
  | JObj "(string \<times> jsval) list"

text \<open>\<open>o[k]\<close> on a value that is known to be an object: a missing property reads as
  \<open>undefined\<close>.\<close>

definition getProp :: "(string \<times> jsval) list \<Rightarrow> string \<Rightarrow> jsval" where
  "getProp kvs k = (case map_of kvs k of None \<Rightarrow> JUndefined | Some v \<Rightarrow> v)"

definition asString :: "jsval \<Rightarrow> string option" where
  "asString v = (case v of JStr s \<Rightarrow> Some s | _ \<Rightarrow> None)"

text \<open>The built-ins of the language and of the validation libraries that the repository calls:
  \<open>Number.prototype.toString\<close>, \<open>String.prototype.localeCompare\<close>, \<open>JSON.stringify\<close>,
  \<open>JSON.parse\<close> (\<open>None\<close> when it throws), \<open>TextDecoder.decode\<close>, viem's \<open>isAddress\<close> and the
  test behind zod's \<open>z.string().datetime()\<close>.\<close>

record runtime =
  numberToString :: "jsnum \<Rightarrow> string"
  localeCompare :: "string \<Rightarrow> string \<Rightarrow> int"
  json_stringify :: "jsval \<Rightarrow> string"
  json_parse :: "string \<Rightarrow> jsval option"
  textDecode :: "bytes \<Rightarrow> string"
  isAddress :: "string \<Rightarrow> bool"
  isDatetime :: "string \<Rightarrow> bool"

text \<open>\<open>Array.prototype.sort(cmp)\<close>, which is stable: each element goes behind the elements
  already placed that do not compare greater.\<close>

fun insertBy :: "('a \<Rightarrow> 'a \<Rightarrow> int) \<Rightarrow> 'a \<Rightarrow> 'a list \<Rightarrow> 'a list" where
  "insertBy cmp x [] = [x]"
| "insertBy cmp x (y # ys) = (if cmp x y < 0 then x # y # ys else y # insertBy cmp x ys)"

definition sortWith :: "('a \<Rightarrow> 'a \<Rightarrow> int) \<Rightarrow> 'a list \<Rightarrow> 'a list" where
  "sortWith cmp xs = foldl (\<lambda>acc x. insertBy cmp x acc) [] xs"

subsection \<open>The cryptographic primitives\<close>

type_synonym CryptoKey = bytes

text \<open>The primitives the repository calls and does not define. \<open>aes_gcm_decrypt\<close> is \<open>None\<close> when
  \<open>crypto.subtle.decrypt\<close> rejects, which is what a failed authentication does.
  \<open>pbkdf2_sha256 passphrase salt iterations\<close> is the AES key of \<open>crypto.subtle.deriveKey\<close>,
  \<open>hkdf_sha256 ikm salt info length\<close> the bytes of \<open>crypto.subtle.deriveBits\<close>, and
  \<open>x25519_getSharedSecret privateKey publicKey\<close> is noble's \<open>x25519.getSharedSecret\<close>, which
  can throw.\<close>

record primitives =
  sha256 :: "bytes \<Rightarrow> bytes"
  aes_gcm_encrypt :: "CryptoKey \<Rightarrow> bytes \<Rightarrow> bytes option \<Rightarrow> bytes \<Rightarrow> bytes"
  aes_gcm_decrypt :: "CryptoKey \<Rightarrow> bytes \<Rightarrow> bytes option \<Rightarrow> bytes \<Rightarrow> bytes option"
  pbkdf2_sha256 :: "bytes \<Rightarrow> bytes \<Rightarrow> jsnum \<Rightarrow> CryptoKey"
  hkdf_sha256 :: "bytes \<Rightarrow> bytes \<Rightarrow> bytes \<Rightarrow> nat \<Rightarrow> bytes"
  x25519_getSharedSecret :: "bytes \<Rightarrow> bytes \<Rightarrow> js_error + bytes"

text \<open>\<open>crypto.subtle.importKey('raw', raw, 'AES-GCM', ...)\<close>: the key is its raw bytes, and
  an AES key of any other length than 128, 192 or 256 bits is refused with a \<open>DataError\<close>.\<close>

definition importAesGcmKey :: "bytes \<Rightarrow> js_error + CryptoKey" where
  "importAesGcmKey raw =
     (if length raw = 16 \<or> length raw = 24 \<or> length raw = 32 then Inr raw
      else Inl (DOMException ''DataError''))"

subsection \<open>storage/db.ts: the vault database\<close>

datatype StoreName = Keys | Contacts | Conversations | Messages | Settings

text \<open>The five store names can be enumerated, which makes two databases comparable by
  computation.\<close>

instantiation StoreName :: enum
begin

definition enum_StoreName :: "StoreName list" where
  "enum_StoreName = [Keys, Contacts, Conversations, Messages, Settings]"

definition enum_all_StoreName :: "(StoreName \<Rightarrow> bool) \<Rightarrow> bool" where
  "enum_all_StoreName Q = (Q Keys \<and> Q Contacts \<and> Q Conversations \<and> Q Messages \<and> Q Settings)"

definition enum_ex_StoreName :: "(StoreName \<Rightarrow> bool) \<Rightarrow> bool" where
  "enum_ex_StoreName Q = (Q Keys \<or> Q Contacts \<or> Q Conversations \<or> Q Messages \<or> Q Settings)"

instance
proof
  show "(UNIV :: StoreName set) = set enum_class.enum"
    using StoreName.exhaust by (auto simp: enum_StoreName_def)
  show "distinct (enum_class.enum :: StoreName list)"
    by (simp add: enum_StoreName_def)
  show "enum_class.enum_all Q = Ball UNIV Q" for Q :: "StoreName \<Rightarrow> bool"
  proof -
    have "Ball UNIV Q = (\<forall>s. Q s)" by simp
    also have "\<dots> = (Q Keys \<and> Q Contacts \<and> Q Conversations \<and> Q Messages \<and> Q Settings)"
      by (metis StoreName.exhaust)
    finally show ?thesis by (simp add: enum_all_StoreName_def)
  qed
  show "enum_class.enum_ex Q = Bex UNIV Q" for Q :: "StoreName \<Rightarrow> bool"
  proof -
    have "Bex UNIV Q = (\<exists>s. Q s)" by simp
    also have "\<dots> = (Q Keys \<or> Q Contacts \<or> Q Conversations \<or> Q Messages \<or> Q Settings)"
      by (metis StoreName.exhaust)
    finally show ?thesis by (simp add: enum_ex_StoreName_def)
  qed
qed

end

record EncryptedBlob =
  iv :: bytes
  ciphertext :: bytes

record VaultRow =
  row_id :: string
  blob :: EncryptedBlob
  createdAt :: string
  updatedAt :: string

datatype db_op =
    DbGet StoreName string
  | DbPut StoreName string
  | DbGetAll StoreName
  | DbOpenCursor StoreName
  | DbDeleteDatabase

text \<open>An object store with \<open>keyPath: 'id'\<close> holds at most one row per id, in the order of the
  ids. \<open>oplog\<close> is the sequence of requests issued so far.\<close>

record vault_db =
  stores :: "StoreName \<Rightarrow> VaultRow list"
  oplog :: "db_op list"

fun put_row :: "VaultRow \<Rightarrow> VaultRow list \<Rightarrow> VaultRow list" where
  "put_row r [] = [r]"
| "put_row r (x # xs) =
     (if row_id r = row_id x then r # xs
      else if row_id r < row_id x then r # x # xs
      else x # put_row r xs)"

definition get_row :: "string \<Rightarrow> VaultRow list \<Rightarrow> VaultRow option" where
  "get_row k rows = find (\<lambda>r. row_id r = k) rows"

definition db_put :: "StoreName \<Rightarrow> VaultRow \<Rightarrow> vault_db \<Rightarrow> vault_db" where
  "db_put s r d =
     d\<lparr>stores := (stores d)(s := put_row r (stores d s)),
       oplog := oplog d @ [DbPut s (row_id r)]\<rparr>"

definition db_get :: "StoreName \<Rightarrow> string \<Rightarrow> vault_db \<Rightarrow> VaultRow option \<times> vault_db" where
  "db_get s k d = (get_row k (stores d s), d\<lparr>oplog := oplog d @ [DbGet s k]\<rparr>)"

definition db_getAll :: "StoreName \<Rightarrow> vault_db \<Rightarrow> VaultRow list \<times> vault_db" where
  "db_getAll s d = (stores d s, d\<lparr>oplog := oplog d @ [DbGetAll s]\<rparr>)"

text \<open>\<open>resetVault\<close>: \<open>indexedDB.deleteDatabase(DB_NAME)\<close>; the next \<open>getDb()\<close> recreates the five
  stores empty.\<close>

definition resetVault :: "vault_db \<Rightarrow> vault_db" where
  "resetVault d = d\<lparr>stores := (\<lambda>s. []), oplog := oplog d @ [DbDeleteDatabase]\<rparr>"

text \<open>
  The schema, and \<open>getDb\<close>: \<open>openDB(DB_NAME, DB_VERSION, {upgrade})\<close> with \<open>DB_VERSION = 3\<close>. A
  database that does not exist has version 0. \<open>upgradeDb\<close> is the \<open>upgrade\<close> callback, in the
  order of the source: first the index \<open>by-timestamp\<close> is added if the store \<open>messages\<close>
  exists and lacks it, then, on a database older than version 1, the five stores are
  created, each with the index \<open>by-updated\<close>.
\<close>

record db_schema =
  db_version :: nat
  store_names :: "StoreName list"
  index_names :: "StoreName \<Rightarrow> string list"

definition createStore :: "StoreName \<Rightarrow> db_schema \<Rightarrow> db_schema" where
  "createStore name sch =
     (if name \<in> set (store_names sch) then sch
      else sch\<lparr>store_names := store_names sch @ [name],
               index_names := (index_names sch)(name := [''by-updated''])\<rparr>)"

definition upgradeDb :: "nat \<Rightarrow> nat \<Rightarrow> db_schema \<Rightarrow> db_schema" where
  "upgradeDb oldVersion version sch =
     (let sch1 =
            (if Messages \<in> set (store_names sch)
             then (if ''by-timestamp'' \<in> set (index_names sch Messages) then sch
                   else sch\<lparr>index_names :=
                              (index_names sch)(Messages := index_names sch Messages @ [''by-timestamp''])\<rparr>)
             else sch)
      in if oldVersion < 1 \<and> 1 \<le> version
         then foldl (\<lambda>acc name. createStore name acc) sch1
                [Keys, Contacts, Conversations, Messages, Settings]
         else sch1)"

definition getDb :: "db_schema \<Rightarrow> js_error + db_schema" where
  "getDb sch =
     (if 3 < db_version sch then Inl (DOMException ''VersionError'')
      else if db_version sch < 3 then Inr ((upgradeDb (db_version sch) 3 sch)\<lparr>db_version := 3\<rparr>)
      else Inr sch)"

text \<open>No database yet; the database as \<open>getDb\<close> creates it; and a database of version 2
  that has the five stores with their \<open>by-updated\<close> index.\<close>

definition no_database :: db_schema where
  "no_database = \<lparr>db_version = 0, store_names = [], index_names = (\<lambda>s. [])\<rparr>"

definition created_database :: db_schema where
  "created_database =
     \<lparr>db_version = 3, store_names = [Keys, Contacts, Conversations, Messages, Settings],
      index_names = (\<lambda>s. [''by-updated''])\<rparr>"

definition legacy_database :: db_schema where
  "legacy_database =
     \<lparr>db_version = 2, store_names = [Keys, Contacts, Conversations, Messages, Settings],
      index_names = (\<lambda>s. [''by-updated''])\<rparr>"

subsection \<open>crypto/aead.ts\<close>

text \<open>\<open>encryptAead\<close> draws its 12-byte IV from \<open>randomBytes(12)\<close>; \<open>rnd\<close> is that draw.\<close>

definition encryptAead :: "primitives \<Rightarrow> CryptoKey \<Rightarrow> bytes \<Rightarrow> bytes option \<Rightarrow> bytes \<Rightarrow> EncryptedBlob" where
  "encryptAead P key plaintext aad rnd =
     \<lparr>iv = rnd, ciphertext = aes_gcm_encrypt P key rnd aad plaintext\<rparr>"

definition decryptAead :: "primitives \<Rightarrow> CryptoKey \<Rightarrow> EncryptedBlob \<Rightarrow> bytes option \<Rightarrow> js_error + bytes" where
  "decryptAead P key record aad =
     (case aes_gcm_decrypt P key (iv record) aad (ciphertext record) of
        None \<Rightarrow> Inl (Error ''AEAD authentication failed'')
      | Some plaintext \<Rightarrow> Inr plaintext)"

subsection \<open>storage/vault.ts\<close>

text \<open>\<open>now\<close> is \<open>new Date().toISOString()\<close> at the call.\<close>

definition putEncryptedRecord ::
  "primitives \<Rightarrow> StoreName \<Rightarrow> string \<Rightarrow> CryptoKey \<Rightarrow> bytes \<Rightarrow> bytes option \<Rightarrow> bytes \<Rightarrow> string
     \<Rightarrow> vault_db \<Rightarrow> vault_db" where
  "putEncryptedRecord P store i key plaintext aad rnd now d =
     (let blob = encryptAead P key plaintext aad rnd;
          row = \<lparr>row_id = i, blob = blob, createdAt = now, updatedAt = now\<rparr>
      in db_put store row d)"

subsection \<open>core/protocol.ts\<close>

record MessageEnvelope =
  env_v :: jsnum
  env_from :: string
  env_to :: string
  env_ts :: string
  env_nonce :: string
  env_iv :: string
  env_ciphertext :: string
  env_aad :: "string option"

definition deriveMessageId :: "primitives \<Rightarrow> MessageEnvelope \<Rightarrow> string" where
  "deriveMessageId P envelope =
     (let combined = env_nonce envelope @ env_ciphertext envelope;
          bytes = utf8Encode combined;
          hash = sha256 P bytes
      in concat (map byteToHex hash))"

subsection \<open>storage/messagesRepo.ts\<close>

definition MESSAGES_AAD_LABEL :: bytes where
  "MESSAGES_AAD_LABEL = utf8Encode ''retrochat:messages:v1''"

definition PROTOCOL_VERSION :: jsnum where
  "PROTOCOL_VERSION = Fin 1"

text \<open>The repository's own copy of \<open>deriveMessageId\<close>.\<close>

definition repo_deriveMessageId :: "primitives \<Rightarrow> MessageEnvelope \<Rightarrow> string" where
  "repo_deriveMessageId P envelope =
     (let combined = env_nonce envelope @ env_ciphertext envelope;
          hash = sha256 P (utf8Encode combined)
      in toHex hash)"

text \<open>\<open>{ envelope }\<close> as \<open>JSON.stringify\<close> sees it: a property that is \<open>undefined\<close> is left
  out.\<close>

definition envelopeToJson :: "MessageEnvelope \<Rightarrow> jsval" where
  "envelopeToJson e =
     JObj ([(''v'', JNum (env_v e)), (''from'', JStr (env_from e)), (''to'', JStr (env_to e)),
            (''ts'', JStr (env_ts e)), (''nonce'', JStr (env_nonce e)), (''iv'', JStr (env_iv e)),
            (''ciphertext'', JStr (env_ciphertext e))]
           @ (case env_aad e of None \<Rightarrow> [] | Some a \<Rightarrow> [(''aad'', JStr a)]))"

text \<open>\<open>JSON.parse(decoded) as MessageRecord\<close> followed by \<open>record.envelope\<close>. The type assertion
  is unchecked; the model follows the source on the values that have the asserted type and
  counts a plaintext that parses to anything else as a row that fails to load.\<close>

definition asMessageEnvelope :: "jsval \<Rightarrow> MessageEnvelope option" where
  "asMessageEnvelope j =
     (case j of
        JObj kvs \<Rightarrow>
          (case (getProp kvs ''v'', getProp kvs ''aad'') of
             (JNum n, a) \<Rightarrow>
               (if a = JUndefined \<or> asString a \<noteq> None then
                  Option.bind (asString (getProp kvs ''from'')) (\<lambda>f.
                  Option.bind (asString (getProp kvs ''to'')) (\<lambda>t.
                  Option.bind (asString (getProp kvs ''ts'')) (\<lambda>ts.
                  Option.bind (asString (getProp kvs ''nonce'')) (\<lambda>nonce.
                  Option.bind (asString (getProp kvs ''iv'')) (\<lambda>i.
                  Option.bind (asString (getProp kvs ''ciphertext'')) (\<lambda>ct.
                    Some \<lparr>env_v = n, env_from = f, env_to = t, env_ts = ts, env_nonce = nonce,
                          env_iv = i, env_ciphertext = ct, env_aad = asString a\<rparr>))))))
                else None)
           | _ \<Rightarrow> None)
      | _ \<Rightarrow> None)"

definition asMessageRecord :: "jsval \<Rightarrow> MessageEnvelope option" where
  "asMessageRecord j = (case j of JObj kvs \<Rightarrow> asMessageEnvelope (getProp kvs ''envelope'') | _ \<Rightarrow> None)"

definition decryptMessageRow ::
  "primitives \<Rightarrow> runtime \<Rightarrow> VaultRow \<Rightarrow> CryptoKey \<Rightarrow> js_error + MessageEnvelope" where
  "decryptMessageRow P R row conversationKey =
     (case decryptAead P conversationKey (blob row) (Some MESSAGES_AAD_LABEL) of
        Inl e \<Rightarrow> Inl e
      | Inr payload \<Rightarrow>
          (case json_parse R (textDecode R payload) of
             None \<Rightarrow> Inl (SyntaxError ''JSON.parse'')
           | Some j \<Rightarrow>
               (case asMessageRecord j of
                  None \<Rightarrow> Inl (TypeError ''not a message record'')
                | Some envelope \<Rightarrow>
                    (if repo_deriveMessageId P envelope \<noteq> row_id row
                     then Inl (Error ''Message ID mismatch: tampering detected.'')
                     else Inr envelope))))"

text \<open>\<open>storeMessage\<close>. \<open>rnd\<close> is the IV that \<open>encryptAead\<close> draws and \<open>clock\<close> the reading of
  \<open>new Date().toISOString()\<close>, used when \<open>envelope.ts\<close> is the empty string. The row is
  looked up and written inside one \<open>readwrite\<close> transaction.\<close>

definition storeMessage ::
  "primitives \<Rightarrow> runtime \<Rightarrow> CryptoKey \<Rightarrow> MessageEnvelope \<Rightarrow> bytes \<Rightarrow> string \<Rightarrow> vault_db
     \<Rightarrow> (js_error + string) \<times> vault_db" where
  "storeMessage P R conversationKey envelope rnd clock d =
     (if env_v envelope \<noteq> PROTOCOL_VERSION
      then (Inl (Error (''Unsupported protocol version: '' @ numberToString R (env_v envelope))), d)
      else
        let messageId = repo_deriveMessageId P envelope;
            payload = utf8Encode (json_stringify R (JObj [(''envelope'', envelopeToJson envelope)]));
            blob = encryptAead P conversationKey payload (Some MESSAGES_AAD_LABEL) rnd;
            now = (if env_ts envelope \<noteq> [] then env_ts envelope else clock);
            row = \<lparr>row_id = messageId, blob = blob, createdAt = now, updatedAt = now\<rparr>;
            (existing, d1) = db_get Messages messageId d
        in (case existing of
              Some _ \<Rightarrow> (Inr messageId, d1)
            | None \<Rightarrow> (Inr messageId, db_put Messages row d1)))"

text \<open>
  \<open>listMessages\<close>. After \<open>getDb\<close> the function opens a read-only transaction on the store
  \<open>messages\<close> and asks for its index \<open>by-timestamp\<close>; \<open>store.index\<close> throws a \<open>NotFoundError\<close>
  when the store has no such index. The index is keyed by \<open>updatedAt\<close>; a cursor opened with
  direction \<open>prev\<close> visits the rows by descending \<open>updatedAt\<close> and, among equal ones,
  descending id. \<open>openCursor\<close> yields \<open>null\<close> on an empty index and the cursor object
  otherwise.

  The variable \<open>cursor\<close> is bound once, to that result: the source awaits
  \<open>cursor.continue()\<close> and drops what it resolves to, so the request advances the cursor
  object and the variable keeps pointing at it. The argument \<open>rows\<close> of \<open>scanMessages\<close> is the
  position of that object, the rows from the current one on; past the last row
  \<open>cursor.value\<close> is \<open>undefined\<close>.

  \<open>active\<close> tells whether the transaction is active. \<open>decryptMessageRow\<close> awaits
  \<open>crypto.subtle.decrypt\<close>, which is no request of the transaction, so whether the row
  decrypts or not the transaction has finished when the loop resumes.
  \<open>cursor.continue()\<close> throws a \<open>TransactionInactiveError\<close> when the transaction is not
  active and, on an active transaction, an \<open>InvalidStateError\<close> when the cursor has run past
  the last row.
\<close>

definition truthy :: "string option \<Rightarrow> bool" where
  "truthy s = (case s of None \<Rightarrow> False | Some t \<Rightarrow> t \<noteq> [])"

text \<open>\<open>await cursor.continue()\<close> on a cursor that has a current row, followed by the rest of
  the loop.\<close>

definition cursorContinue :: "bool \<Rightarrow> js_error + 'a \<Rightarrow> js_error + 'a" where
  "cursorContinue active rest =
     (if active then rest else Inl (DOMException ''TransactionInactiveError''))"

fun scanMessages ::
  "primitives \<Rightarrow> runtime \<Rightarrow> CryptoKey \<Rightarrow> jsnum \<Rightarrow> string option \<Rightarrow> string option \<Rightarrow> bool
     \<Rightarrow> VaultRow list \<Rightarrow> MessageEnvelope list \<Rightarrow> nat \<Rightarrow> js_error + MessageEnvelope list" where
  "scanMessages P R key limit before after active [] messages count =
     (if num_lt (Fin (of_nat count)) limit then
        (if truthy before \<or> truthy after
         then Inl (TypeError ''Cannot read properties of undefined (reading 'updatedAt')'')
         else if active then Inl (DOMException ''InvalidStateError'')
         else Inl (DOMException ''TransactionInactiveError''))
      else Inr messages)"
| "scanMessages P R key limit before after active (row # rest) messages count =
     (if num_lt (Fin (of_nat count)) limit then
        (if (case before of None \<Rightarrow> False | Some b \<Rightarrow> b \<noteq> [] \<and> b \<le> updatedAt row)
         then cursorContinue active
                (scanMessages P R key limit before after active rest messages count)
         else if (case after of None \<Rightarrow> False | Some a \<Rightarrow> a \<noteq> [] \<and> updatedAt row \<le> a)
         then Inr messages
         else (case decryptMessageRow P R row key of
                 Inr envelope \<Rightarrow>
                   cursorContinue False
                     (scanMessages P R key limit before after False rest (messages @ [envelope])
                        (count + 1))
               | Inl _ \<Rightarrow>
                   cursorContinue False
                     (scanMessages P R key limit before after False rest messages count)))
      else Inr messages)"

definition byTimestampPrev :: "VaultRow list \<Rightarrow> VaultRow list" where
  "byTimestampPrev rows = rev (sort_key (\<lambda>r. (updatedAt r, row_id r)) rows)"

definition listMessages ::
  "primitives \<Rightarrow> runtime \<Rightarrow> CryptoKey \<Rightarrow> jsnum option \<Rightarrow> string option \<Rightarrow> string option
     \<Rightarrow> db_schema \<Rightarrow> vault_db \<Rightarrow> (js_error + MessageEnvelope list) \<times> db_schema \<times> vault_db" where
  "listMessages P R conversationKey limit before after sch d =
     (let lim = (case limit of None \<Rightarrow> Fin 50 | Some l \<Rightarrow> l) in
      case getDb sch of
        Inl e \<Rightarrow> (Inl e, sch, d)
      | Inr sch1 \<Rightarrow>
          (if Messages \<notin> set (store_names sch1) then (Inl (DOMException ''NotFoundError''), sch1, d)
           else if ''by-timestamp'' \<notin> set (index_names sch1 Messages)
           then (Inl (DOMException ''NotFoundError''), sch1, d)
           else
             (let d1 = d\<lparr>oplog := oplog d @ [DbOpenCursor Messages]\<rparr>;
                  index = byTimestampPrev (stores d Messages)
              in (case (if index = [] then Inr []
                        else scanMessages P R conversationKey lim before after True index [] 0) of
                    Inl e \<Rightarrow> (Inl e, sch1, d1)
                  | Inr messages \<Rightarrow>
                      (Inr (sortWith (\<lambda>a b. localeCompare R (env_ts b) (env_ts a)) messages),
                       sch1, d1)))))"

subsection \<open>storage/backup/backup.ts\<close>

definition BACKUP_AAD :: bytes where
  "BACKUP_AAD = utf8Encode ''retrochat:backup:v1''"

definition PBKDF2_ITERATIONS :: jsnum where
  "PBKDF2_ITERATIONS = Fin 200000"

definition DB_NAME :: string where
  "DB_NAME = ''retrochat-vault''"

definition DB_VERSION :: jsnum where
  "DB_VERSION = Fin 3"

text \<open>The white space that \<open>String.prototype.trim\<close> and \<open>parseInt\<close> skip, among the code units
  below 256.\<close>

definition isWhiteSpace :: "char \<Rightarrow> bool" where
  "isWhiteSpace c = ((of_char c :: nat) \<in> set [9, 10, 11, 12, 13, 32, 160])"

definition trim :: "string \<Rightarrow> string" where
  "trim s = rev (dropWhile isWhiteSpace (rev (dropWhile isWhiteSpace s)))"

text \<open>\<open>Number.parseInt(s, 16)\<close>, \<open>None\<close> for \<open>NaN\<close>: leading white space, a sign and a \<open>0x\<close>
  prefix are skipped, then the longest run of hexadecimal digits is read.\<close>

definition hexValue :: "string \<Rightarrow> int" where
  "hexValue z = foldl (\<lambda>acc c. 16 * acc + (case hexVal c of None \<Rightarrow> 0 | Some v \<Rightarrow> int v)) 0 z"

definition parseInt16 :: "string \<Rightarrow> int option" where
  "parseInt16 s =
     (let s0 = dropWhile isWhiteSpace s;
          sign = (if take 1 s0 = ''-'' then - 1 else 1);
          s1 = (if take 1 s0 = ''-'' \<or> take 1 s0 = ''+'' then drop 1 s0 else s0);
          s2 = (if take 2 s1 = ''0x'' \<or> take 2 s1 = ''0X'' then drop 2 s1 else s1);
          z = takeWhile isHexChar s2
      in if z = [] then None else Some (sign * hexValue z))"

text \<open>Storing a number into a \<open>Uint8Array\<close>: \<open>NaN\<close> becomes 0, an integer wraps modulo 256.\<close>

definition toUint8 :: "int option \<Rightarrow> byte" where
  "toUint8 n = (case n of None \<Rightarrow> 0 | Some k \<Rightarrow> word_of_int k)"

fun hexSlices :: "string \<Rightarrow> string list" where
  "hexSlices (a # b # cs) = [a, b] # hexSlices cs"
| "hexSlices cs = []"

definition fromHex :: "string \<Rightarrow> js_error + bytes" where
  "fromHex hex =
     (if length hex mod 2 \<noteq> 0 then Inl (Error ''Invalid hex string length.'')
      else Inr (map (\<lambda>slice. toUint8 (parseInt16 slice)) (hexSlices hex)))"

definition isRecord :: "jsval \<Rightarrow> bool" where
  "isRecord v = (case v of JObj kvs \<Rightarrow> True | _ \<Rightarrow> False)"

text \<open>\<open>v.k\<close> for a value that passed \<open>isRecord\<close>.\<close>

definition field_of :: "jsval \<Rightarrow> string \<Rightarrow> jsval" where
  "field_of v k = (case v of JObj kvs \<Rightarrow> getProp kvs k | _ \<Rightarrow> JUndefined)"

text \<open>A step that can throw, followed by the rest of the function.\<close>

definition bindE :: "js_error + 'a \<Rightarrow> ('a \<Rightarrow> js_error + 'b) \<Rightarrow> js_error + 'b" where
  "bindE m f = (case m of Inl e \<Rightarrow> Inl e | Inr x \<Rightarrow> f x)"

text \<open>A loop whose body can throw: the first exception ends it.\<close>

fun mapE :: "('a \<Rightarrow> js_error + 'b) \<Rightarrow> 'a list \<Rightarrow> js_error + 'b list" where
  "mapE f [] = Inr []"
| "mapE f (x # xs) =
     (case f x of
        Inl e \<Rightarrow> Inl e
      | Inr y \<Rightarrow> (case mapE f xs of Inl e \<Rightarrow> Inl e | Inr ys \<Rightarrow> Inr (y # ys)))"

definition assertString :: "jsval \<Rightarrow> string \<Rightarrow> js_error + string" where
  "assertString v label =
     (case v of JStr s \<Rightarrow> Inr s | _ \<Rightarrow> Inl (Error (''Invalid '' @ label @ '': expected string.'')))"

definition assertNumber :: "jsval \<Rightarrow> string \<Rightarrow> js_error + jsnum" where
  "assertNumber v label =
     (case v of
        JNum n \<Rightarrow> (if n = NaN then Inl (Error (''Invalid '' @ label @ '': expected number.'')) else Inr n)
      | _ \<Rightarrow> Inl (Error (''Invalid '' @ label @ '': expected number.'')))"

definition storeNameString :: "StoreName \<Rightarrow> string" where
  "storeNameString s =
     (case s of Keys \<Rightarrow> ''keys'' | Contacts \<Rightarrow> ''contacts'' | Conversations \<Rightarrow> ''conversations''
      | Messages \<Rightarrow> ''messages'' | Settings \<Rightarrow> ''settings'')"

definition allStores :: "StoreName list" where
  "allStores = [Keys, Contacts, Conversations, Messages, Settings]"

definition assertStoreName :: "string \<Rightarrow> js_error + unit" where
  "assertStoreName s =
     (if s \<noteq> ''keys'' \<and> s \<noteq> ''contacts'' \<and> s \<noteq> ''conversations'' \<and> s \<noteq> ''messages''
         \<and> s \<noteq> ''settings''
      then Inl (Error ''Invalid store name in backup.'') else Inr ())"

definition sha256Hex :: "primitives \<Rightarrow> bytes \<Rightarrow> string" where
  "sha256Hex P bs = toHex (sha256 P bs)"

definition deriveBackupKey :: "primitives \<Rightarrow> string \<Rightarrow> bytes \<Rightarrow> jsnum \<Rightarrow> CryptoKey" where
  "deriveBackupKey P passphrase salt iterations =
     pbkdf2_sha256 P (utf8Encode passphrase) salt iterations"

definition encryptBackupPayload :: "primitives \<Rightarrow> CryptoKey \<Rightarrow> bytes \<Rightarrow> bytes \<Rightarrow> bytes" where
  "encryptBackupPayload P key i plaintext = aes_gcm_encrypt P key i (Some BACKUP_AAD) plaintext"

definition decryptBackupPayload :: "primitives \<Rightarrow> CryptoKey \<Rightarrow> bytes \<Rightarrow> bytes \<Rightarrow> js_error + bytes" where
  "decryptBackupPayload P key i ct =
     (case aes_gcm_decrypt P key i (Some BACKUP_AAD) ct of
        None \<Rightarrow> Inl (Error ''Backup integrity check failed (wrong passphrase or tampered file).'')
      | Some plaintext \<Rightarrow> Inr plaintext)"

text \<open>\<open>BackupRowJson\<close>, and \<open>serializeRow\<close> as the JSON value that \<open>JSON.stringify\<close> receives.\<close>

record BackupRowJson =
  bk_id :: string
  bk_ivHex :: string
  bk_ciphertextHex :: string
  bk_createdAt :: string
  bk_updatedAt :: string

definition serializeRow :: "VaultRow \<Rightarrow> jsval" where
  "serializeRow row =
     JObj [(''id'', JStr (row_id row)),
           (''blob'', JObj [(''ivHex'', JStr (toHex (iv (blob row)))),
                            (''ciphertextHex'', JStr (toHex (ciphertext (blob row))))]),
           (''createdAt'', JStr (createdAt row)),
           (''updatedAt'', JStr (updatedAt row))]"

definition deserializeRow :: "BackupRowJson \<Rightarrow> js_error + VaultRow" where
  "deserializeRow row =
     bindE (fromHex (bk_ivHex row)) (\<lambda>i.
     bindE (fromHex (bk_ciphertextHex row)) (\<lambda>ct.
       Inr \<lparr>row_id = bk_id row, blob = \<lparr>iv = i, ciphertext = ct\<rparr>,
            createdAt = bk_createdAt row, updatedAt = bk_updatedAt row\<rparr>))"

text \<open>The body of the loop over the rows of store \<open>s\<close> in \<open>validateBackupPayloadV1\<close>; the row
  it returns is the row at the type the assertion narrows it to.\<close>

definition validateBackupRow :: "string \<Rightarrow> jsval \<Rightarrow> js_error + BackupRowJson" where
  "validateBackupRow s r =
     (if \<not> isRecord r then Inl (Error (''Invalid row in '' @ s @ '': expected object.''))
      else
        bindE (assertString (field_of r ''id'') (s @ ''.row.id'')) (\<lambda>i.
        bindE (assertString (field_of r ''createdAt'') (s @ ''.row.createdAt'')) (\<lambda>c.
        bindE (assertString (field_of r ''updatedAt'') (s @ ''.row.updatedAt'')) (\<lambda>u.
          if \<not> isRecord (field_of r ''blob'') then Inl (Error (''Invalid row blob in '' @ s @ ''.''))
          else
            bindE (assertString (field_of (field_of r ''blob'') ''ivHex'') (s @ ''.row.blob.ivHex'')) (\<lambda>ivHex.
            bindE (assertString (field_of (field_of r ''blob'') ''ciphertextHex'') (s @ ''.row.blob.ciphertextHex'')) (\<lambda>ciphertextHex.
            bindE (fromHex ivHex) (\<lambda>i'.
            bindE (fromHex ciphertextHex) (\<lambda>ct.
              if length i' \<noteq> 12
              then Inl (Error (''Invalid IV length in '' @ s @ '' row (expected 12 bytes).''))
              else if length ct = 0
              then Inl (Error (''Invalid ciphertext length in '' @ s @ '' row.''))
              else Inr \<lparr>bk_id = i, bk_ivHex = ivHex, bk_ciphertextHex = ciphertextHex,
                        bk_createdAt = c, bk_updatedAt = u\<rparr>))))))))"

text \<open>The payload at the type \<open>validateBackupPayloadV1\<close> narrows it to. \<open>pl_stores\<close> has an entry
  for each key of \<open>payload.stores\<close>, which need not be all five stores.\<close>

record BackupPayloadV1 =
  pl_exportedAt :: string
  pl_db_name :: string
  pl_db_version :: jsnum
  pl_stores :: "(string \<times> BackupRowJson list) list"

definition validateBackupStore :: "jsval \<Rightarrow> string \<Rightarrow> js_error + string \<times> BackupRowJson list" where
  "validateBackupStore storesObj s =
     bindE (assertStoreName s) (\<lambda>_.
       case field_of storesObj s of
         JArr rows \<Rightarrow> bindE (mapE (validateBackupRow s) rows) (\<lambda>rs. Inr (s, rs))
       | _ \<Rightarrow> Inl (Error (''Invalid payload.stores.'' @ s @ '': expected array.'')))"

definition objectKeys :: "jsval \<Rightarrow> string list" where
  "objectKeys v = (case v of JObj kvs \<Rightarrow> remdups (map fst kvs) | _ \<Rightarrow> [])"

definition validateBackupPayloadV1 :: "jsval \<Rightarrow> js_error + BackupPayloadV1" where
  "validateBackupPayloadV1 payload =
     (if \<not> isRecord payload then Inl (Error ''Invalid backup payload: expected object.'')
      else if field_of payload ''format'' \<noteq> JStr ''retrochat.vault.payload''
      then Inl (Error ''Invalid backup payload format.'')
      else if field_of payload ''v'' \<noteq> JNum (Fin 1) then Inl (Error ''Unsupported backup payload version.'')
      else
        bindE (assertString (field_of payload ''exportedAt'') ''payload.exportedAt'') (\<lambda>exportedAt.
          if \<not> isRecord (field_of payload ''db'') then Inl (Error ''Invalid payload.db.'')
          else
            bindE (assertString (field_of (field_of payload ''db'') ''name'') ''payload.db.name'') (\<lambda>name.
            bindE (assertNumber (field_of (field_of payload ''db'') ''version'') ''payload.db.version'') (\<lambda>version.
              if \<not> isRecord (field_of payload ''stores'') then Inl (Error ''Invalid payload.stores.'')
              else
                bindE (mapE (validateBackupStore (field_of payload ''stores''))
                         (objectKeys (field_of payload ''stores''))) (\<lambda>validated.
                  Inr \<lparr>pl_exportedAt = exportedAt, pl_db_name = name, pl_db_version = version,
                       pl_stores = validated\<rparr>)))))"

text \<open>The backup file at the type \<open>validateEncryptedBackupFileV1\<close> narrows it to; the fields
  whose type is a single literal are left out.\<close>

record EncryptedBackupFileV1 =
  bf_createdAt :: string
  bf_saltHex :: string
  bf_iterations :: jsnum
  bf_ivHex :: string
  bf_ciphertextHex :: string
  bf_plaintextHashHex :: string

definition validateEncryptedBackupFileV1 :: "jsval \<Rightarrow> js_error + EncryptedBackupFileV1" where
  "validateEncryptedBackupFileV1 file =
     (if \<not> isRecord file then Inl (Error ''Invalid backup file: expected object.'')
      else if field_of file ''format'' \<noteq> JStr ''retrochat.encrypted-backup''
      then Inl (Error ''Invalid backup format.'')
      else if field_of file ''v'' \<noteq> JNum (Fin 1) then Inl (Error ''Unsupported backup version.'')
      else
        bindE (assertString (field_of file ''createdAt'') ''createdAt'') (\<lambda>created.
          if \<not> isRecord (field_of file ''kdf'') then Inl (Error ''Invalid kdf.'')
          else if field_of (field_of file ''kdf'') ''name'' \<noteq> JStr ''PBKDF2'' then Inl (Error ''Unsupported kdf.'')
          else if field_of (field_of file ''kdf'') ''hash'' \<noteq> JStr ''SHA-256''
          then Inl (Error ''Unsupported kdf hash.'')
          else
            bindE (assertString (field_of (field_of file ''kdf'') ''saltHex'') ''kdf.saltHex'') (\<lambda>saltHex.
            bindE (assertNumber (field_of (field_of file ''kdf'') ''iterations'') ''kdf.iterations'') (\<lambda>iterations.
              if num_lt iterations (Fin 50000) \<or> num_lt (Fin 2000000) iterations
              then Inl (Error ''Backup KDF iterations out of allowed range.'')
              else if \<not> isRecord (field_of file ''aead'') then Inl (Error ''Invalid aead.'')
              else if field_of (field_of file ''aead'') ''name'' \<noteq> JStr ''AES-GCM''
              then Inl (Error ''Unsupported aead.'')
              else
                bindE (assertString (field_of (field_of file ''aead'') ''ivHex'') ''aead.ivHex'') (\<lambda>ivHex.
                  if field_of (field_of file ''aead'') ''aadLabel'' \<noteq> JStr ''retrochat:backup:v1''
                  then Inl (Error ''Unexpected backup AAD label.'')
                  else
                    bindE (assertString (field_of file ''ciphertextHex'') ''ciphertextHex'') (\<lambda>ciphertextHex.
                    bindE (assertString (field_of file ''plaintextHashHex'') ''plaintextHashHex'') (\<lambda>plaintextHashHex.
                    bindE (fromHex saltHex) (\<lambda>salt.
                    bindE (fromHex ivHex) (\<lambda>i.
                    bindE (fromHex ciphertextHex) (\<lambda>ct.
                    bindE (fromHex plaintextHashHex) (\<lambda>hash.
                      if length salt \<noteq> 16
                      then Inl (Error ''Invalid backup salt length (expected 16 bytes).'')
                      else if length i \<noteq> 12
                      then Inl (Error ''Invalid backup IV length (expected 12 bytes).'')
                      else if length ct = 0 then Inl (Error ''Invalid backup ciphertext length.'')
                      else if length hash \<noteq> 32
                      then Inl (Error ''Invalid backup hash length (expected 32 bytes).'')
                      else Inr \<lparr>bf_createdAt = created, bf_saltHex = saltHex,
                                bf_iterations = iterations, bf_ivHex = ivHex,
                                bf_ciphertextHex = ciphertextHex,
                                bf_plaintextHashHex = plaintextHashHex\<rparr>)))))))))))"

text \<open>core/validate/backup.ts: the zod schema of the backup file. A string passes \<open>Hex\<close>
  when its length is even and it matches \<open>/^[0-9a-fA-F]+$/\<close>.\<close>

definition Hex :: "jsval \<Rightarrow> bool" where
  "Hex v = (case v of JStr s \<Rightarrow> length s mod 2 = 0 \<and> s \<noteq> [] \<and> list_all isHexChar s | _ \<Rightarrow> False)"

definition zDatetime :: "runtime \<Rightarrow> jsval \<Rightarrow> bool" where
  "zDatetime R v = (case v of JStr s \<Rightarrow> isDatetime R s | _ \<Rightarrow> False)"

definition EncryptedBackupFileSchema :: "runtime \<Rightarrow> jsval \<Rightarrow> bool" where
  "EncryptedBackupFileSchema R j =
     (isRecord j
      \<and> field_of j ''format'' = JStr ''retrochat.encrypted-backup''
      \<and> field_of j ''v'' = JNum (Fin 1)
      \<and> zDatetime R (field_of j ''createdAt'')
      \<and> isRecord (field_of j ''kdf'')
      \<and> field_of (field_of j ''kdf'') ''name'' = JStr ''PBKDF2''
      \<and> field_of (field_of j ''kdf'') ''hash'' = JStr ''SHA-256''
      \<and> Hex (field_of (field_of j ''kdf'') ''saltHex'')
      \<and> (case field_of (field_of j ''kdf'') ''iterations'' of
            JNum n \<Rightarrow> n \<noteq> NaN \<and> isInteger n \<and> \<not> num_lt n (Fin 50000) \<and> \<not> num_lt (Fin 2000000) n
          | _ \<Rightarrow> False)
      \<and> isRecord (field_of j ''aead'')
      \<and> field_of (field_of j ''aead'') ''name'' = JStr ''AES-GCM''
      \<and> Hex (field_of (field_of j ''aead'') ''ivHex'')
      \<and> field_of (field_of j ''aead'') ''aadLabel'' = JStr ''retrochat:backup:v1''
      \<and> Hex (field_of j ''ciphertextHex'')
      \<and> Hex (field_of j ''plaintextHashHex''))"

text \<open>\<open>exportEncryptedBackup\<close>. \<open>salt\<close> and \<open>ivRnd\<close> are the draws of \<open>randomBytes(16)\<close> and
  \<open>randomBytes(12)\<close>, \<open>exportedAt\<close> and \<open>created\<close> the two readings of the clock.\<close>

definition passphraseTooShort :: "string \<Rightarrow> bool" where
  "passphraseTooShort passphrase = (passphrase = [] \<or> length (trim passphrase) < 8)"

fun readStores :: "StoreName list \<Rightarrow> vault_db \<Rightarrow> (StoreName \<times> VaultRow list) list \<times> vault_db" where
  "readStores [] d = ([], d)"
| "readStores (s # ss) d =
     (let (rows, d1) = db_getAll s d; (rest, d2) = readStores ss d1 in ((s, rows) # rest, d2))"

definition backupPayload :: "string \<Rightarrow> (StoreName \<times> VaultRow list) list \<Rightarrow> jsval" where
  "backupPayload exportedAt contents =
     JObj [(''format'', JStr ''retrochat.vault.payload''),
           (''v'', JNum (Fin 1)),
           (''exportedAt'', JStr exportedAt),
           (''db'', JObj [(''name'', JStr DB_NAME), (''version'', JNum DB_VERSION)]),
           (''stores'', JObj (map (\<lambda>(s, rows). (storeNameString s, JArr (map serializeRow rows))) contents))]"

definition exportEncryptedBackup ::
  "primitives \<Rightarrow> runtime \<Rightarrow> string \<Rightarrow> bytes \<Rightarrow> bytes \<Rightarrow> string \<Rightarrow> string \<Rightarrow> vault_db
     \<Rightarrow> (js_error + EncryptedBackupFileV1) \<times> vault_db" where
  "exportEncryptedBackup P R passphrase salt ivRnd exportedAt created d =
     (if passphraseTooShort passphrase
      then (Inl (Error ''Passphrase must be at least 8 characters.''), d)
      else
        let (contents, d1) = readStores allStores d;
            payload = backupPayload exportedAt contents;
            plaintext = utf8Encode (json_stringify R payload);
            plaintextHashHex = sha256Hex P plaintext;
            key = deriveBackupKey P passphrase salt PBKDF2_ITERATIONS;
            ct = encryptBackupPayload P key ivRnd plaintext
        in (Inr \<lparr>bf_createdAt = created, bf_saltHex = toHex salt,
                  bf_iterations = PBKDF2_ITERATIONS, bf_ivHex = toHex ivRnd,
                  bf_ciphertextHex = toHex ct, bf_plaintextHashHex = plaintextHashHex\<rparr>, d1))"

text \<open>\<open>importEncryptedBackup\<close>. The loop that deserializes the rows of every store before the
  reset is \<open>prepareData\<close>: a store that the payload does not have makes the inner
  \<open>for ... of\<close> throw a \<open>TypeError\<close>, and what the body throws is wrapped by its \<open>catch\<close>.\<close>

definition prepareRow :: "StoreName \<Rightarrow> BackupRowJson \<Rightarrow> js_error + VaultRow" where
  "prepareRow store row =
     (case (case deserializeRow row of
              Inl e \<Rightarrow> Inl e
            | Inr restored \<Rightarrow>
                (if row_id restored = []
                 then Inl (Error (''Invalid row id in store '' @ storeNameString store))
                 else Inr restored)) of
        Inl err \<Rightarrow>
          Inl (Error (''Failed to prepare backup data for store \"'' @ storeNameString store
                        @ ''\": '' @ error_message err))
      | Inr restored \<Rightarrow> Inr restored)"

definition prepareStore :: "BackupPayloadV1 \<Rightarrow> StoreName \<Rightarrow> js_error + StoreName \<times> VaultRow list" where
  "prepareStore payload store =
     (case map_of (pl_stores payload) (storeNameString store) of
        None \<Rightarrow> Inl (TypeError ''rows is not iterable'')
      | Some rows \<Rightarrow> bindE (mapE (prepareRow store) rows) (\<lambda>deserialized. Inr (store, deserialized)))"

definition prepareData :: "BackupPayloadV1 \<Rightarrow> js_error + (StoreName \<times> VaultRow list) list" where
  "prepareData payload = mapE (prepareStore payload) allStores"

text \<open>The loop that writes the prepared rows, store by store and row by row.\<close>

definition restoreData :: "(StoreName \<times> VaultRow list) list \<Rightarrow> vault_db \<Rightarrow> vault_db" where
  "restoreData preparedData d =
     foldl (\<lambda>d1 (store, rows). foldl (\<lambda>d2 row. db_put store row d2) d1 rows) d preparedData"

definition importEncryptedBackup ::
  "primitives \<Rightarrow> runtime \<Rightarrow> string \<Rightarrow> jsval \<Rightarrow> string option \<Rightarrow> vault_db
     \<Rightarrow> (js_error + unit) \<times> vault_db" where
  "importEncryptedBackup P R passphrase fileJson mode d =
     (if passphraseTooShort passphrase
      then (Inl (Error ''Passphrase must be at least 8 characters.''), d)
      else if (case mode of None \<Rightarrow> ''replace'' | Some m \<Rightarrow> m) \<noteq> ''replace''
      then (Inl (Error ''Unsupported import mode.''), d)
      else if \<not> EncryptedBackupFileSchema R fileJson
      then (Inl (ZodError ''invalid backup file''), d)
      else
        (case validateEncryptedBackupFileV1 fileJson of
           Inl e \<Rightarrow> (Inl e, d)
         | Inr file \<Rightarrow>
        (case fromHex (bf_saltHex file) of
           Inl e \<Rightarrow> (Inl e, d)
         | Inr salt \<Rightarrow>
        (case fromHex (bf_ivHex file) of
           Inl e \<Rightarrow> (Inl e, d)
         | Inr i \<Rightarrow>
        (case fromHex (bf_ciphertextHex file) of
           Inl e \<Rightarrow> (Inl e, d)
         | Inr ct \<Rightarrow>
        (let expectedHashHex = bf_plaintextHashHex file;
             key = deriveBackupKey P passphrase salt (bf_iterations file)
         in
        (case decryptBackupPayload P key i ct of
           Inl e \<Rightarrow> (Inl e, d)
         | Inr plaintextBytes \<Rightarrow>
        (if sha256Hex P plaintextBytes \<noteq> expectedHashHex
         then (Inl (Error ''Backup integrity check failed (hash mismatch).''), d)
         else
        (case json_parse R (textDecode R plaintextBytes) of
           None \<Rightarrow> (Inl (Error ''Backup payload is not valid JSON.''), d)
         | Some payloadUnknown \<Rightarrow>
        (case validateBackupPayloadV1 payloadUnknown of
           Inl e \<Rightarrow> (Inl e, d)
         | Inr payload \<Rightarrow>
        (case prepareData payload of
           Inl e \<Rightarrow> (Inl e, d)
         | Inr preparedData \<Rightarrow>
             (Inr (), restoreData preparedData (resetVault d)))))))))))))"

definition store_ok :: "VaultRow list \<Rightarrow> bool" where
  "store_ok rows = sorted_wrt (<) (map row_id rows)"

subsection \<open>crypto/unlock.ts\<close>

text \<open>noble's \<open>hexToBytes\<close>, which throws on a string of odd length or with a character that
  is not a hexadecimal digit.\<close>

definition hexToBytes :: "string \<Rightarrow> js_error + bytes" where
  "hexToBytes s = (case hexPairs s of None \<Rightarrow> Inl (Error ''hex string expected'') | Some bs \<Rightarrow> Inr bs)"

definition KEY_DERIVATION_LABEL :: string where
  "KEY_DERIVATION_LABEL = ''retrochat:vault:session-key:v1''"

definition strip0x :: "string \<Rightarrow> string" where
  "strip0x s = (if take 2 s = ''0x'' then drop 2 s else s)"

definition deriveSessionKeyMaterial :: "primitives \<Rightarrow> string \<Rightarrow> js_error + bytes" where
  "deriveSessionKeyMaterial P signatureHex =
     (let clean = strip0x signatureHex in
      case hexToBytes clean of
        Inl e \<Rightarrow> Inl e
      | Inr sigBytes \<Rightarrow>
          (let labelBytes = utf8Encode KEY_DERIVATION_LABEL;
               input = labelBytes @ sigBytes
           in Inr (sha256 P input)))"

definition importSessionKey :: "bytes \<Rightarrow> js_error + CryptoKey" where
  "importSessionKey material = importAesGcmKey material"

subsection \<open>crypto/dsk.ts\<close>

definition DSK_AAD_LABEL :: bytes where
  "DSK_AAD_LABEL = utf8Encode ''retrochat:dsk:v1''"

text \<open>\<open>exportDSK\<close> is the raw key and \<open>importDSK\<close> imports raw bytes as an AES-GCM key.\<close>

definition exportDSK :: "CryptoKey \<Rightarrow> bytes" where
  "exportDSK key = key"

definition importDSK :: "bytes \<Rightarrow> js_error + CryptoKey" where
  "importDSK raw = importAesGcmKey raw"

definition encryptDSK :: "primitives \<Rightarrow> CryptoKey \<Rightarrow> CryptoKey \<Rightarrow> bytes \<Rightarrow> EncryptedBlob" where
  "encryptDSK P dsk sessionKey rnd =
     (let dskRaw = exportDSK dsk in encryptAead P sessionKey dskRaw (Some DSK_AAD_LABEL) rnd)"

text \<open>\<open>decryptDSK\<close>: the \<open>catch\<close> replaces the error of \<open>decryptAead\<close> by the wrong-account
  error and lets every other error through; a rejection of \<open>importDSK\<close> passes as it is.\<close>

definition decryptDSK :: "primitives \<Rightarrow> EncryptedBlob \<Rightarrow> CryptoKey \<Rightarrow> js_error + CryptoKey" where
  "decryptDSK P encryptedDSK sessionKey =
     (case decryptAead P sessionKey encryptedDSK (Some DSK_AAD_LABEL) of
        Inl error \<Rightarrow>
          (if error_message error = ''AEAD authentication failed''
           then Inl (Error ''Wrong account or corrupted vault. Please reset the vault.'')
           else Inl error)
      | Inr dskRaw \<Rightarrow> importDSK dskRaw)"

subsection \<open>storage/keys.ts\<close>

definition DSK_ID :: string where
  "DSK_ID = ''dsk''"

text \<open>\<open>getOrCreateDSK\<close>. With a stored row the function returns the promise of \<open>decryptDSK\<close>
  without awaiting it, so a rejection of that promise is the rejection of \<open>getOrCreateDSK\<close>
  and the surrounding \<open>catch\<close> never sees it. \<open>fresh\<close> is the key that \<open>generateDSK\<close> draws,
  \<open>rnd\<close> the IV of the wrapping, \<open>now\<close> the clock.\<close>

definition getOrCreateDSK ::
  "primitives \<Rightarrow> CryptoKey \<Rightarrow> bytes \<Rightarrow> bytes \<Rightarrow> string \<Rightarrow> vault_db \<Rightarrow> (js_error + CryptoKey) \<times> vault_db" where
  "getOrCreateDSK P sessionKey fresh rnd now d =
     (let (existing, d1) = db_get Keys DSK_ID d in
      case existing of
        Some row \<Rightarrow> (decryptDSK P (blob row) sessionKey, d1)
      | None \<Rightarrow>
          (let dsk = fresh;
               encryptedDSK = encryptDSK P dsk sessionKey rnd
           in (Inr dsk,
               db_put Keys \<lparr>row_id = DSK_ID, blob = encryptedDSK, createdAt = now, updatedAt = now\<rparr> d1)))"

subsection \<open>core/session/VaultSession.tsx\<close>

datatype VaultSessionState =
    Locked
  | Unlocking
  | Unlocked CryptoKey string CryptoKey string
  | SessionError string

text \<open>The state of the provider: the React state \<open>session\<close>, the ref
  \<open>lastUnlockAddressRef\<close> and the vault database.\<close>

record provider_state =
  session :: VaultSessionState
  lastUnlockAddressRef :: "string option"
  vault :: vault_db

text \<open>\<open>/^0x[a-fA-F0-9]{40}$/.test(address)\<close>\<close>

definition isValidEthereumAddress :: "string \<Rightarrow> bool" where
  "isValidEthereumAddress address =
     (length address = 42 \<and> take 2 address = ''0x'' \<and> list_all isHexChar (drop 2 address))"

definition isValidSignatureFormat :: "string \<Rightarrow> bool" where
  "isValidSignatureFormat signature =
     (let clean = strip0x signature in length clean = 130 \<and> list_all isHexChar clean)"

text \<open>\<open>String.prototype.toLowerCase\<close> on code units below 256.\<close>

definition lowerChar :: "char \<Rightarrow> char" where
  "lowerChar c = (let n = (of_char c :: nat) in
     if (65 \<le> n \<and> n \<le> 90) \<or> (192 \<le> n \<and> n \<le> 222 \<and> n \<noteq> 215) then char_of (n + 32) else c)"

definition toLowerCase :: "string \<Rightarrow> string" where
  "toLowerCase s = map lowerChar s"

definition lock :: "provider_state \<Rightarrow> provider_state" where
  "lock st = st\<lparr>lastUnlockAddressRef := None, session := Locked\<rparr>"

text \<open>The \<open>try\<close> block of \<open>unlockFromSignature\<close>: what it throws or, when it runs through, the
  session it sets and the address it stores in the ref; in both cases the database as the
  block leaves it. The \<open>console.warn\<close> about an unlock under another address changes
  nothing and is left out.\<close>

definition unlockBody ::
  "primitives \<Rightarrow> string \<Rightarrow> string \<Rightarrow> bytes \<Rightarrow> bytes \<Rightarrow> string \<Rightarrow> vault_db
     \<Rightarrow> (js_error + VaultSessionState \<times> string) \<times> vault_db" where
  "unlockBody P signature address fresh rnd now d =
     (if address = [] then (Inl (Error ''Missing address for unlock.''), d)
      else if \<not> isValidEthereumAddress address then (Inl (Error ''Invalid Ethereum address format.''), d)
      else if signature = [] then (Inl (Error ''Missing signature for unlock.''), d)
      else if \<not> isValidSignatureFormat signature then (Inl (Error ''Invalid signature format.''), d)
      else
        let normalizedAddress = toLowerCase address in
        case deriveSessionKeyMaterial P signature of
          Inl e \<Rightarrow> (Inl e, d)
        | Inr material \<Rightarrow>
            (case importSessionKey material of
               Inl e \<Rightarrow> (Inl e, d)
             | Inr key \<Rightarrow>
                 (let fingerprintBytes = take 8 material;
                      fingerprint = toHex fingerprintBytes;
                      (res, d1) = getOrCreateDSK P key fresh rnd now d
                  in case res of
                       Inl e \<Rightarrow> (Inl e, d1)
                     | Inr dsk \<Rightarrow>
                         (Inr (Unlocked key fingerprint dsk normalizedAddress, normalizedAddress), d1))))"

definition unlockFromSignature ::
  "primitives \<Rightarrow> string \<Rightarrow> string \<Rightarrow> bytes \<Rightarrow> bytes \<Rightarrow> string \<Rightarrow> provider_state \<Rightarrow> provider_state" where
  "unlockFromSignature P signature address fresh rnd now st =
     (let st1 = st\<lparr>session := Unlocking\<rparr> in
      case unlockBody P signature address fresh rnd now (vault st1) of
        (Inl error, d) \<Rightarrow> st1\<lparr>session := SessionError (error_message error), vault := d\<rparr>
      | (Inr (unlocked, normalizedAddress), d) \<Rightarrow>
          st1\<lparr>lastUnlockAddressRef := Some normalizedAddress, session := unlocked, vault := d\<rparr>)"

subsection \<open>core/validate/message.ts\<close>

text \<open>\<open>HexSchema\<close> accepts a string of even length that matches \<open>/^[0-9a-fA-F]+$/\<close>. The schema
  of the envelope checks each field with the validator of that field and keeps the fields it
  knows; \<open>refine\<close> is the extra test on the length of the string.\<close>

definition hexString :: "string \<Rightarrow> bool" where
  "hexString s = (length s mod 2 = 0 \<and> s \<noteq> [] \<and> list_all isHexChar s)"

definition zVersion :: "jsval \<Rightarrow> jsnum option" where
  "zVersion j =
     (case j of
        JNum n \<Rightarrow>
          (if n \<noteq> NaN \<and> isInteger n \<and> \<not> num_lt n (Fin 1) \<and> \<not> num_lt (Fin 1) n then Some n else None)
      | _ \<Rightarrow> None)"

definition zAddress :: "runtime \<Rightarrow> jsval \<Rightarrow> string option" where
  "zAddress R j = (case j of JStr s \<Rightarrow> (if isAddress R s then Some s else None) | _ \<Rightarrow> None)"

definition zDatetimeString :: "runtime \<Rightarrow> jsval \<Rightarrow> string option" where
  "zDatetimeString R j = (case j of JStr s \<Rightarrow> (if isDatetime R s then Some s else None) | _ \<Rightarrow> None)"

definition zHex :: "(nat \<Rightarrow> bool) \<Rightarrow> jsval \<Rightarrow> string option" where
  "zHex refine j = (case j of JStr s \<Rightarrow> (if hexString s \<and> refine (length s) then Some s else None) | _ \<Rightarrow> None)"

definition zOptionalHex :: "jsval \<Rightarrow> string option option" where
  "zOptionalHex j =
     (case j of
        JUndefined \<Rightarrow> Some None
      | JStr s \<Rightarrow> (if hexString s then Some (Some s) else None)
      | _ \<Rightarrow> None)"

definition MessageEnvelopeSchema :: "runtime \<Rightarrow> jsval \<Rightarrow> MessageEnvelope option" where
  "MessageEnvelopeSchema R input =
     (case input of
        JObj kvs \<Rightarrow>
          Option.bind (zVersion (getProp kvs ''v'')) (\<lambda>v.
          Option.bind (zAddress R (getProp kvs ''from'')) (\<lambda>f.
          Option.bind (zAddress R (getProp kvs ''to'')) (\<lambda>t.
          Option.bind (zDatetimeString R (getProp kvs ''ts'')) (\<lambda>ts.
          Option.bind (zHex (\<lambda>n. n = 32) (getProp kvs ''nonce'')) (\<lambda>nonce.
          Option.bind (zHex (\<lambda>n. n = 24) (getProp kvs ''iv'')) (\<lambda>i.
          Option.bind (zHex (\<lambda>n. n > 0) (getProp kvs ''ciphertext'')) (\<lambda>ct.
          Option.bind (zOptionalHex (getProp kvs ''aad'')) (\<lambda>aad.
            Some \<lparr>env_v = v, env_from = f, env_to = t, env_ts = ts, env_nonce = nonce,
                  env_iv = i, env_ciphertext = ct, env_aad = aad\<rparr>))))))))
      | _ \<Rightarrow> None)"

definition safeParseMessageEnvelope :: "runtime \<Rightarrow> jsval \<Rightarrow> string + MessageEnvelope" where
  "safeParseMessageEnvelope R input =
     (case MessageEnvelopeSchema R input of
        None \<Rightarrow> Inl ''Invalid message payload.''
      | Some data \<Rightarrow> Inr data)"

text \<open>Hexadecimal text described by what it decodes to: \<open>hexOfBytes count j\<close> holds when \<open>j\<close>
  is a string that decodes, digit pair by digit pair, to a number of bytes that meets
  \<open>count\<close>.\<close>

definition hexOfBytes :: "(nat \<Rightarrow> bool) \<Rightarrow> jsval \<Rightarrow> bool" where
  "hexOfBytes count j =
     (case j of
        JStr s \<Rightarrow> (case hexPairs s of None \<Rightarrow> False | Some bs \<Rightarrow> count (length bs))
      | _ \<Rightarrow> False)"

definition addressValue :: "runtime \<Rightarrow> jsval \<Rightarrow> bool" where
  "addressValue R j = (case j of JStr s \<Rightarrow> isAddress R s | _ \<Rightarrow> False)"

text \<open>The conditions under which the schema accepts: those of the specification, with the
  address and the timestamp decided by the two library tests of the runtime, and with an
  \<open>aad\<close> that, when present, decodes to at least one byte.\<close>

definition envelope_acceptable :: "runtime \<Rightarrow> jsval \<Rightarrow> bool" where
  "envelope_acceptable R input =
     (case input of
        JObj kvs \<Rightarrow>
          getProp kvs ''v'' = JNum (Fin 1)
          \<and> addressValue R (getProp kvs ''from'')
          \<and> addressValue R (getProp kvs ''to'')
          \<and> zDatetime R (getProp kvs ''ts'')
          \<and> hexOfBytes (\<lambda>n. n = 16) (getProp kvs ''nonce'')
          \<and> hexOfBytes (\<lambda>n. n = 12) (getProp kvs ''iv'')
          \<and> hexOfBytes (\<lambda>n. 1 \<le> n) (getProp kvs ''ciphertext'')
          \<and> (getProp kvs ''aad'' = JUndefined \<or> hexOfBytes (\<lambda>n. 1 \<le> n) (getProp kvs ''aad''))
      | _ \<Rightarrow> False)"

text \<open>
  The conditions as the specification states them, independent of the code and of the
  libraries. A well-formed address is \<open>0x\<close> followed by 40 hexadecimal digits. Of ISO-8601
  the profile \<open>YYYY-MM-DDThh:mm:ss\<close>, an optional fraction of a second, \<open>Z\<close> is recognised,
  which is enough to exhibit a timestamp that is ISO-8601. The bound of at least one byte
  is stated for the ciphertext only: an \<open>aad\<close> that is present has to be valid hexadecimal
  text, of any number of bytes.
\<close>

definition wellFormedAddress :: "jsval \<Rightarrow> bool" where
  "wellFormedAddress j =
     (case j of
        JStr s \<Rightarrow> length s = 42 \<and> take 2 s = ''0x'' \<and> list_all isHexChar (drop 2 s)
      | _ \<Rightarrow> False)"

definition isDigitChar :: "char \<Rightarrow> bool" where
  "isDigitChar c = (48 \<le> (of_char c :: nat) \<and> (of_char c :: nat) \<le> 57)"

fun matchTemplate :: "string \<Rightarrow> string \<Rightarrow> bool" where
  "matchTemplate [] [] = True"
| "matchTemplate (t # ts) (c # cs) =
     ((if t = CHR ''d'' then isDigitChar c else c = t) \<and> matchTemplate ts cs)"
| "matchTemplate _ _ = False"

definition iso8601Utc :: "string \<Rightarrow> bool" where
  "iso8601Utc s =
     (matchTemplate ''dddd-dd-ddTdd:dd:dd'' (take 19 s)
      \<and> (drop 19 s = ''Z''
          \<or> (take 1 (drop 19 s) = ''.'' \<and> 2 < length (drop 19 s)
               \<and> list_all isDigitChar (butlast (drop 20 s)) \<and> drop (length s - 1) s = ''Z'')))"

definition iso8601Value :: "jsval \<Rightarrow> bool" where
  "iso8601Value j = (case j of JStr s \<Rightarrow> iso8601Utc s | _ \<Rightarrow> False)"

definition envelope_claimed :: "jsval \<Rightarrow> bool" where
  "envelope_claimed input =
     (case input of
        JObj kvs \<Rightarrow>
          getProp kvs ''v'' = JNum (Fin 1)
          \<and> wellFormedAddress (getProp kvs ''from'')
          \<and> wellFormedAddress (getProp kvs ''to'')
          \<and> iso8601Value (getProp kvs ''ts'')
          \<and> hexOfBytes (\<lambda>n. n = 16) (getProp kvs ''nonce'')
          \<and> hexOfBytes (\<lambda>n. n = 12) (getProp kvs ''iv'')
          \<and> hexOfBytes (\<lambda>n. 1 \<le> n) (getProp kvs ''ciphertext'')
          \<and> (getProp kvs ''aad'' = JUndefined \<or> hexOfBytes (\<lambda>n. True) (getProp kvs ''aad''))
      | _ \<Rightarrow> False)"

subsection \<open>crypto/ecdh.ts\<close>

definition X25519_KEY_LENGTH :: nat where
  "X25519_KEY_LENGTH = 32"

definition validateX25519Key :: "runtime \<Rightarrow> bytes \<Rightarrow> string \<Rightarrow> js_error + unit" where
  "validateX25519Key R key keyType =
     (if length key \<noteq> X25519_KEY_LENGTH
      then Inl (X25519ValidationError
                  (''Invalid '' @ keyType @ '' key length: expected ''
                     @ numberToString R (Fin (of_nat X25519_KEY_LENGTH)) @ '' bytes, got ''
                     @ numberToString R (Fin (of_nat (length key)))))
      else if list_all (\<lambda>b. b = 0) key
      then Inl (X25519ValidationError (''Invalid '' @ keyType @ '' key: key cannot be all zeros''))
      else Inr ())"

definition deriveSharedSecret :: "primitives \<Rightarrow> runtime \<Rightarrow> bytes \<Rightarrow> bytes \<Rightarrow> js_error + bytes" where
  "deriveSharedSecret P R privateKey peerPublicKey =
     bindE (validateX25519Key R privateKey ''private'') (\<lambda>_.
     bindE (validateX25519Key R peerPublicKey ''public'') (\<lambda>_.
       case x25519_getSharedSecret P privateKey peerPublicKey of
         Inl err \<Rightarrow> Inl (X25519ValidationError (''Failed to derive shared secret: '' @ error_message err))
       | Inr secret \<Rightarrow> Inr secret))"

subsection \<open>crypto/kdf.ts\<close>

definition hkdfSha256 :: "primitives \<Rightarrow> bytes \<Rightarrow> bytes \<Rightarrow> bytes \<Rightarrow> nat \<Rightarrow> bytes" where
  "hkdfSha256 P ikm salt info n = hkdf_sha256 P ikm salt info n"

subsection \<open>crypto/conversationKeys.ts\<close>

definition CONVERSATION_SALT :: bytes where
  "CONVERSATION_SALT = utf8Encode ''retrochat:conversation:salt:v1''"

definition CONVERSATION_ID_LENGTH :: nat where
  "CONVERSATION_ID_LENGTH = 16"

record ConversationKeySpec =
  ck_key :: CryptoKey
  ck_id :: string

text \<open>\<open>validateAddress\<close> tests the address against \<open>/^0x[a-fA-F0-9]{40}$/\<close>.\<close>

definition validateAddress :: "string \<Rightarrow> string \<Rightarrow> js_error + unit" where
  "validateAddress address label =
     (if length (trim address) = 0
      then Inl (ConversationKeyError (''Invalid '' @ label @ '': address cannot be empty''))
      else if \<not> (length address = 42 \<and> take 2 address = ''0x'' \<and> list_all isHexChar (drop 2 address))
      then Inl (ConversationKeyError (''Invalid '' @ label @ '': not a valid Ethereum address format''))
      else Inr ())"

definition validateKey :: "runtime \<Rightarrow> bytes \<Rightarrow> string \<Rightarrow> js_error + unit" where
  "validateKey R key label =
     (if length key \<noteq> X25519_KEY_LENGTH
      then Inl (ConversationKeyError
                  (''Invalid '' @ label @ '': expected '' @ numberToString R (Fin (of_nat X25519_KEY_LENGTH))
                     @ '' bytes, got '' @ numberToString R (Fin (of_nat (length key)))))
      else Inr ())"

definition validateEpoch :: "jsnum \<Rightarrow> js_error + unit" where
  "validateEpoch epoch =
     (if \<not> isInteger epoch \<or> num_lt epoch (Fin 0)
      then Inl (ConversationKeyError ''Invalid epoch: must be a non-negative integer'')
      else Inr ())"

definition isX25519ValidationError :: "js_error \<Rightarrow> bool" where
  "isX25519ValidationError e = (case e of X25519ValidationError m \<Rightarrow> True | _ \<Rightarrow> False)"

text \<open>\<open>deriveConversationKey\<close>. The two lowercased addresses are sorted with the default
  \<open>sort()\<close>, which orders strings by their code units, and \<open>[a, b]\<close> are the first two
  elements of the result.\<close>

definition deriveConversationKey ::
  "primitives \<Rightarrow> runtime \<Rightarrow> bytes \<Rightarrow> bytes \<Rightarrow> string \<Rightarrow> string \<Rightarrow> jsnum option
     \<Rightarrow> js_error + ConversationKeySpec" where
  "deriveConversationKey P R myPrivateKey peerPublicKey myAddress peerAddress epochOpt =
     (let epoch = (case epochOpt of None \<Rightarrow> Fin 0 | Some e \<Rightarrow> e) in
      bindE (validateKey R myPrivateKey ''myPrivateKey'') (\<lambda>_.
      bindE (validateKey R peerPublicKey ''peerPublicKey'') (\<lambda>_.
      bindE (validateAddress myAddress ''myAddress'') (\<lambda>_.
      bindE (validateAddress peerAddress ''peerAddress'') (\<lambda>_.
      bindE (validateEpoch epoch) (\<lambda>_.
      bindE (case deriveSharedSecret P R myPrivateKey peerPublicKey of
               Inl err \<Rightarrow>
                 (if isX25519ValidationError err
                  then Inl (ConversationKeyError (''Key derivation failed: '' @ error_message err))
                  else Inl err)
             | Inr secret \<Rightarrow> Inr secret) (\<lambda>sharedSecret.
        let sorted = sort [toLowerCase myAddress, toLowerCase peerAddress];
            a = sorted ! 0;
            b = sorted ! 1;
            infoString = ''retrochat:conversation:hkdf:v1|'' @ a @ ''|'' @ b @ ''|epoch=''
                           @ numberToString R epoch;
            info = utf8Encode infoString;
            keyMaterial = hkdfSha256 P sharedSecret CONVERSATION_SALT info 32
        in bindE (importAesGcmKey keyMaterial) (\<lambda>key.
             Inr \<lparr>ck_key = key, ck_id = toHex (take CONVERSATION_ID_LENGTH keyMaterial)\<rparr>))))))))"

subsection \<open>A small platform for running the model\<close>

text \<open>Stand-ins for the primitives and built-ins, used only to run the model on concrete
  inputs: a digest that is the last 32 bytes of its input in reverse, an AEAD whose tag is
  the key, key derivations that cut their inputs to length, a key agreement that raises
  each byte of the public key to the matching byte of the private key, a JSON codec that
  knows one message record and one backup payload, an address test that accepts the
  well-formed addresses without capital letters, and a datetime test that accepts the
  profile of \<open>iso8601Utc\<close>. No general theorem depends on them.\<close>

definition demo_primitives :: primitives where
  "demo_primitives =
     \<lparr>sha256 = (\<lambda>bs. take 32 (rev bs @ replicate 32 0)),
      aes_gcm_encrypt = (\<lambda>key iv aad pt. pt @ key),
      aes_gcm_decrypt = (\<lambda>key iv aad ct.
         if length key \<le> length ct \<and> drop (length ct - length key) ct = key
         then Some (take (length ct - length key) ct) else None),
      pbkdf2_sha256 = (\<lambda>passphrase salt iterations. take 32 (passphrase @ salt @ replicate 32 1)),
      hkdf_sha256 = (\<lambda>ikm salt info n. take n (ikm @ info @ replicate n 0)),
      x25519_getSharedSecret = (\<lambda>privateKey publicKey. Inr (map2 (\<lambda>a p. p ^ unat a) privateKey publicKey))\<rparr>"

definition demo_envelope :: MessageEnvelope where
  "demo_envelope =
     \<lparr>env_v = Fin 1, env_from = ''0x1234567890123456789012345678901234567890'',
      env_to = ''0xabcdefabcdefabcdefabcdefabcdefabcdefabcd'',
      env_ts = ''2024-01-01T00:00:00.000Z'',
      env_nonce = ''12345678901234567890123456789012'', env_iv = ''123456789012345678901234'',
      env_ciphertext = ''abcdef1234567890'', env_aad = None\<rparr>"

definition demo_runtime :: runtime where
  "demo_runtime =
     \<lparr>numberToString = (\<lambda>n. ''1''),
      localeCompare = (\<lambda>a b. if a < b then - 1 else if a = b then 0 else 1),
      json_stringify = (\<lambda>j. if j = JObj [(''envelope'', envelopeToJson demo_envelope)] then ''E'' else ''?''),
      json_parse = (\<lambda>s. if s = ''E'' then Some (JObj [(''envelope'', envelopeToJson demo_envelope)]) else None),
      textDecode = map (\<lambda>b. char_of (unat b)),
      isAddress = (\<lambda>s. isValidEthereumAddress s \<and> toLowerCase s = s),
      isDatetime = iso8601Utc\<rparr>"

definition empty_db :: vault_db where
  "empty_db = \<lparr>stores = (\<lambda>s. []), oplog = []\<rparr>"

definition demo_address :: string where
  "demo_address = ''0x1234567890123456789012345678901234567890''"

text \<open>A signature of 65 equal bytes, given the two hexadecimal digits of the byte.\<close>

definition demo_signature :: "string \<Rightarrow> string" where
  "demo_signature byte = ''0x'' @ concat (replicate 65 byte)"

definition locked_state :: provider_state where
  "locked_state = \<lparr>session = Locked, lastUnlockAddressRef = None, vault = empty_db\<rparr>"

text \<open>A provider that was unlocked once, under the signature of bytes \<open>aa\<close>, and locked
  again: its vault holds a DSK wrapped under that signature's session key.\<close>

definition demo_wrapped_state :: provider_state where
  "demo_wrapped_state =
     lock (unlockFromSignature demo_primitives (demo_signature ''aa'') demo_address
             (replicate 32 5) (replicate 12 7) ''t0'' locked_state)"

text \<open>A backup payload with one row in the store \<open>keys\<close>, and the backup file that the
  stand-in primitives produce for it under the passphrase \<open>correct horse\<close>, given the hash
  it claims for the plaintext.\<close>

definition demo_payload :: jsval where
  "demo_payload =
     JObj [(''format'', JStr ''retrochat.vault.payload''),
           (''v'', JNum (Fin 1)),
           (''exportedAt'', JStr ''2024-01-01T00:00:00.000Z''),
           (''db'', JObj [(''name'', JStr DB_NAME), (''version'', JNum DB_VERSION)]),
           (''stores'',
              JObj [(''keys'', JArr [JObj [(''id'', JStr ''dsk''),
                                           (''blob'', JObj [(''ivHex'', JStr ''000102030405060708090a0b''),
                                                            (''ciphertextHex'', JStr ''c0ffee'')]),
                                           (''createdAt'', JStr ''t0''),
                                           (''updatedAt'', JStr ''t0'')]]),
                    (''contacts'', JArr []), (''conversations'', JArr []),
                    (''messages'', JArr []), (''settings'', JArr [])])]"

definition demo_backup_file :: "string \<Rightarrow> jsval" where
  "demo_backup_file hashHex =
     JObj [(''format'', JStr ''retrochat.encrypted-backup''),
           (''v'', JNum (Fin 1)),
           (''createdAt'', JStr ''2024-01-01T00:00:00.000Z''),
           (''kdf'', JObj [(''name'', JStr ''PBKDF2''), (''hash'', JStr ''SHA-256''),
                           (''saltHex'', JStr ''01010101010101010101010101010101''),
                           (''iterations'', JNum (Fin 200000))]),
           (''aead'', JObj [(''name'', JStr ''AES-GCM''),
                            (''ivHex'', JStr ''020202020202020202020202''),
                            (''aadLabel'', JStr ''retrochat:backup:v1'')]),
           (''ciphertextHex'',
              JStr ''42636f727265637420686f72736501010101010101010101010101010101010101''),
           (''plaintextHashHex'', JStr hashHex)]"

definition demo_good_hash :: string where
  "demo_good_hash = ''4200000000000000000000000000000000000000000000000000000000000000''"

definition demo_bad_hash :: string where
  "demo_bad_hash = ''0000000000000000000000000000000000000000000000000000000000000000''"

text \<open>The stand-in runtime, with a \<open>JSON.parse\<close> that also knows the text \<open>B\<close> of the backup
  payload.\<close>

definition demo_runtime2 :: runtime where
  "demo_runtime2 = demo_runtime\<lparr>json_parse := (\<lambda>s. if s = ''B'' then Some demo_payload else json_parse demo_runtime s)\<rparr>"


text \<open>Two key pairs of the stand-in key agreement, whose public key is 3 raised to the bytes
  of the private key, and a second address, in mixed case.\<close>

definition demo_privA :: bytes where "demo_privA = replicate 32 2"
definition demo_privB :: bytes where "demo_privB = replicate 32 3"

definition demo_public :: "bytes \<Rightarrow> bytes" where
  "demo_public privateKey = map (\<lambda>a. 3 ^ unat a) privateKey"

definition demo_addressB :: string where
  "demo_addressB = ''0xABCDEFabcdefabcdefabcdefabcdefabcdefabcd''"

subsection \<open>Assumptions on the primitives\<close>


section \<open>Properties\<close>

subsection \<open>The object store\<close>

lemma get_row_put_row_same: "get_row (row_id r) (put_row r rows) = Some r"
  by (induction rows) (auto simp: get_row_def)

lemma get_row_put_row_other: "k \<noteq> row_id r \<Longrightarrow> get_row k (put_row r rows) = get_row k rows"
  by (induction rows) (auto simp: get_row_def)

text \<open>
  C10. Every call of \<open>putEncryptedRecord\<close> leaves, under the id it was given, a row whose
  \<open>createdAt\<close> and \<open>updatedAt\<close> are both the time of the call, whatever the store held before:
  a row that was already stored under that id is replaced as a whole, its original
  \<open>createdAt\<close> included.
\<close>

theorem putEncryptedRecord_timestamps:
  "get_row i (stores (putEncryptedRecord P s i key pt aad rnd now d) s)
     = Some \<lparr>row_id = i, blob = encryptAead P key pt aad rnd, createdAt = now, updatedAt = now\<rparr>"
  by (simp add: putEncryptedRecord_def db_put_def Let_def
        get_row_put_row_same [of "\<lparr>row_id = i, blob = encryptAead P key pt aad rnd, createdAt = now, updatedAt = now\<rparr>", simplified])

lemma hexVal_digit: "k < 16 \<Longrightarrow> hexVal (''0123456789abcdef'' ! k) = Some k"
proof -
  assume "k < 16"
  then have "k = 0 \<or> k = 1 \<or> k = 2 \<or> k = 3 \<or> k = 4 \<or> k = 5 \<or> k = 6 \<or> k = 7
      \<or> k = 8 \<or> k = 9 \<or> k = 10 \<or> k = 11 \<or> k = 12 \<or> k = 13 \<or> k = 14 \<or> k = 15"
    by arith
  then show ?thesis by (elim disjE) (simp_all add: hexVal_def)
qed

lemma hexVal_hexDigit: "hexVal (hexDigit n) = Some (n mod 16)"
  by (simp add: hexDigit_def hexVal_digit)

lemma hexDigit_lower: "hexDigit n \<in> set ''0123456789abcdef''"
  unfolding hexDigit_def by (rule nth_mem) simp

lemma byte_of_digits: "word_of_nat (16 * (unat b div 16 mod 16) + unat b mod 16) = b"
  for b :: byte
proof -
  have "unat b < 2 ^ LENGTH(8)" by (rule unsigned_less)
  then have "unat b < 256" by simp
  then have "unat b div 16 mod 16 = unat b div 16" by simp
  then have "16 * (unat b div 16 mod 16) + unat b mod 16 = unat b" by simp
  then show ?thesis by simp
qed

lemma hexPairs_byteToHex: "hexPairs (byteToHex b @ s) = (case hexPairs s of None \<Rightarrow> None | Some bs \<Rightarrow> Some (b # bs))"
  using byte_of_digits [of b]
  by (simp add: byteToHex_def hexVal_hexDigit split: option.splits)

lemma hexPairs_toHex: "hexPairs (toHex bs) = Some bs"
proof (induction bs)
  case Nil
  then show ?case by (simp add: toHex_def)
next
  case (Cons b bs)
  have "toHex (b # bs) = byteToHex b @ toHex bs" by (simp add: toHex_def)
  with Cons show ?case by (simp add: hexPairs_byteToHex)
qed

lemma toHex_lower: "list_all (\<lambda>c. c \<in> set ''0123456789abcdef'') (toHex bs)"
proof (induction bs)
  case Nil
  then show ?case by (simp add: toHex_def)
next
  case (Cons b bs)
  have "toHex (b # bs) = byteToHex b @ toHex bs" by (simp add: toHex_def)
  with Cons hexDigit_lower show ?case by (simp add: byteToHex_def del: set_simps)
qed
text \<open>
  C7. The message id is the hexadecimal encoding of the SHA-256 digest of the nonce
  followed by the ciphertext (the two fields as the envelope carries them, UTF-8 encoded):
  it is \<open>toHex\<close> of the digest, it decodes, digit pair by digit pair, to exactly the bytes
  of the digest, and its digits are the sixteen digits in lower case. The copy in the
  protocol module and the copy in the repository agree; and two envelopes with the same
  nonce and ciphertext get the same id, whatever their other fields are.
\<close>

theorem deriveMessageId_content_addressed:
  "deriveMessageId P e = toHex (sha256 P (utf8Encode (env_nonce e @ env_ciphertext e)))
   \<and> hexPairs (deriveMessageId P e) = Some (sha256 P (utf8Encode (env_nonce e @ env_ciphertext e)))
   \<and> list_all (\<lambda>c. c \<in> set ''0123456789abcdef'') (deriveMessageId P e)
   \<and> repo_deriveMessageId P e = deriveMessageId P e
   \<and> (env_nonce e = env_nonce e' \<and> env_ciphertext e = env_ciphertext e'
        \<longrightarrow> deriveMessageId P e = deriveMessageId P e'
          \<and> repo_deriveMessageId P e = repo_deriveMessageId P e')"
proof -
  have id: "deriveMessageId P e = toHex (sha256 P (utf8Encode (env_nonce e @ env_ciphertext e)))"
    by (simp add: deriveMessageId_def toHex_def Let_def)
  have dec: "hexPairs (deriveMessageId P e)
      = Some (sha256 P (utf8Encode (env_nonce e @ env_ciphertext e)))"
    unfolding id by (rule hexPairs_toHex)
  have low: "list_all (\<lambda>c. c \<in> set ''0123456789abcdef'') (deriveMessageId P e)"
    unfolding id by (rule toHex_lower)
  have same: "repo_deriveMessageId P e = deriveMessageId P e"
    by (simp add: deriveMessageId_def repo_deriveMessageId_def toHex_def Let_def)
  have det: "env_nonce e = env_nonce e' \<and> env_ciphertext e = env_ciphertext e'
        \<longrightarrow> deriveMessageId P e = deriveMessageId P e'
          \<and> repo_deriveMessageId P e = repo_deriveMessageId P e'"
    by (simp add: deriveMessageId_def repo_deriveMessageId_def Let_def)
  from id dec low same det show ?thesis by blast
qed

theorem deriveMessageId_content_addressed_witness:
  "env_nonce demo_envelope
     = env_nonce (demo_envelope\<lparr>env_from := demo_address, env_ts := ''2025-06-30T12:00:00Z'',
                                 env_iv := ''ffffffffffffffffffffffff'', env_aad := Some ''deadbeef''\<rparr>)
   \<and> env_ciphertext demo_envelope
     = env_ciphertext (demo_envelope\<lparr>env_from := demo_address, env_ts := ''2025-06-30T12:00:00Z'',
                                 env_iv := ''ffffffffffffffffffffffff'', env_aad := Some ''deadbeef''\<rparr>)
   \<and> deriveMessageId demo_primitives demo_envelope
     = deriveMessageId demo_primitives
         (demo_envelope\<lparr>env_from := demo_address, env_ts := ''2025-06-30T12:00:00Z'',
                          env_iv := ''ffffffffffffffffffffffff'', env_aad := Some ''deadbeef''\<rparr>)
   \<and> repo_deriveMessageId demo_primitives demo_envelope
     = repo_deriveMessageId demo_primitives
         (demo_envelope\<lparr>env_from := demo_address, env_ts := ''2025-06-30T12:00:00Z'',
                          env_iv := ''ffffffffffffffffffffffff'', env_aad := Some ''deadbeef''\<rparr>)"
proof -
  let ?e' = "demo_envelope\<lparr>env_from := demo_address, env_ts := ''2025-06-30T12:00:00Z'',
                           env_iv := ''ffffffffffffffffffffffff'', env_aad := Some ''deadbeef''\<rparr>"
  have n: "env_nonce demo_envelope = env_nonce ?e'" by simp
  have c: "env_ciphertext demo_envelope = env_ciphertext ?e'" by simp
  from deriveMessageId_content_addressed [of demo_primitives demo_envelope ?e'] n c
  have "deriveMessageId demo_primitives demo_envelope = deriveMessageId demo_primitives ?e'
      \<and> repo_deriveMessageId demo_primitives demo_envelope = repo_deriveMessageId demo_primitives ?e'"
    by blast
  with n c show ?thesis by blast
qed

subsection \<open>The message repository\<close>

lemma set_put_row: "set (put_row r rows) \<subseteq> insert r (set rows)"
  by (induction rows) auto

lemma store_ok_put_row: "store_ok rows \<Longrightarrow> store_ok (put_row r rows)"
proof (induction rows)
  case Nil
  then show ?case by (simp add: store_ok_def)
next
  case (Cons x xs)
  have sub: "set (put_row r xs) \<subseteq> insert r (set xs)" by (rule set_put_row)
  from Cons show ?case
    using sub by (auto simp: store_ok_def)
qed

lemma store_ok_count:
  "store_ok rows \<Longrightarrow> get_row k rows = Some r \<Longrightarrow> length (filter (\<lambda>x. row_id x = k) rows) = 1"
proof (induction rows)
  case Nil
  then show ?case by (simp add: get_row_def)
next
  case (Cons x xs)
  show ?case
  proof (cases "row_id x = k")
    case True
    with Cons.prems have "\<forall>y\<in>set xs. k < row_id y" by (auto simp: store_ok_def)
    then have "filter (\<lambda>x. row_id x = k) xs = []" by (auto simp: filter_empty_conv)
    with True show ?thesis by simp
  next
    case False
    with Cons show ?thesis by (auto simp: store_ok_def get_row_def)
  qed
qed

text \<open>
  C2. For an envelope of the supported version and a messages store in the state an object
  store can be in (one row per id), two calls of \<open>storeMessage\<close> with the same envelope,
  whatever IV and clock each call draws, both return the message id; the second call leaves
  the rows as the first left them; the store then holds exactly one row under that id (and
  exactly one row at all when it was empty before); and when a row under that id was
  already stored before the first call, the first call does not touch the rows either.
\<close>

theorem storeMessage_idempotent:
  assumes v: "env_v e = PROTOCOL_VERSION" and ok: "store_ok (stores d Messages)"
  shows "(case storeMessage P R key e rnd1 clock1 d of (r1, d1) \<Rightarrow>
          (case storeMessage P R key e rnd2 clock2 d1 of (r2, d2) \<Rightarrow>
             r1 = Inr (repo_deriveMessageId P e) \<and> r2 = r1
           \<and> stores d2 = stores d1
           \<and> length (filter (\<lambda>r. row_id r = repo_deriveMessageId P e) (stores d2 Messages)) = 1
           \<and> (stores d Messages = [] \<longrightarrow> length (stores d2 Messages) = 1)
           \<and> (get_row (repo_deriveMessageId P e) (stores d Messages) \<noteq> None \<longrightarrow> stores d1 = stores d)))"
proof -
  let ?i = "repo_deriveMessageId P e"
  obtain r1 d1 where s1: "storeMessage P R key e rnd1 clock1 d = (r1, d1)"
    by (cases "storeMessage P R key e rnd1 clock1 d")
  obtain r2 d2 where s2: "storeMessage P R key e rnd2 clock2 d1 = (r2, d2)"
    by (cases "storeMessage P R key e rnd2 clock2 d1")
  have r1: "r1 = Inr ?i" using s1 v
    by (auto simp: storeMessage_def Let_def db_get_def split: option.splits)
  have ex1: "\<exists>row. get_row ?i (stores d1 Messages) = Some row"
    using s1 v get_row_put_row_same [of "\<lparr>row_id = ?i, blob = b, createdAt = c, updatedAt = u\<rparr>" for b c u, simplified]
    by (auto simp: storeMessage_def Let_def db_get_def db_put_def split: option.splits)
  have ok1: "store_ok (stores d1 Messages)"
    using s1 v ok
    by (auto simp: storeMessage_def Let_def db_get_def db_put_def store_ok_put_row split: option.splits)
  have keep: "get_row ?i (stores d Messages) \<noteq> None \<longrightarrow> stores d1 = stores d"
    using s1 v by (auto simp: storeMessage_def Let_def db_get_def split: option.splits)
  have empty: "stores d Messages = [] \<longrightarrow> length (stores d1 Messages) = 1"
    using s1 v
    by (auto simp: storeMessage_def Let_def db_get_def db_put_def get_row_def split: option.splits)
  have r2: "r2 = Inr ?i" and same: "stores d2 = stores d1"
    using s2 v ex1 by (auto simp: storeMessage_def Let_def db_get_def split: option.splits)
  from ex1 ok1 have "length (filter (\<lambda>r. row_id r = ?i) (stores d1 Messages)) = 1"
    by (auto dest: store_ok_count)
  with r1 r2 same keep empty show ?thesis by (simp add: s1 s2)
qed

theorem storeMessage_idempotent_witness:
  "env_v demo_envelope = PROTOCOL_VERSION \<and> store_ok (stores empty_db Messages)
   \<and> (case storeMessage demo_primitives demo_runtime [1, 2, 3] demo_envelope [7, 7] ''t1'' empty_db of (r1, d1) \<Rightarrow>
        (case storeMessage demo_primitives demo_runtime [1, 2, 3] demo_envelope [8, 8] ''t2'' d1 of (r2, d2) \<Rightarrow>
           r1 = Inr (repo_deriveMessageId demo_primitives demo_envelope) \<and> r2 = r1
         \<and> stores d2 = stores d1
         \<and> length (filter (\<lambda>r. row_id r = repo_deriveMessageId demo_primitives demo_envelope) (stores d2 Messages)) = 1
         \<and> (stores empty_db Messages = [] \<longrightarrow> length (stores d2 Messages) = 1)
         \<and> (get_row (repo_deriveMessageId demo_primitives demo_envelope) (stores empty_db Messages) \<noteq> None
              \<longrightarrow> stores d1 = stores empty_db)))"
proof -
  have v: "env_v demo_envelope = PROTOCOL_VERSION"
    by (simp add: demo_envelope_def PROTOCOL_VERSION_def)
  have ok: "store_ok (stores empty_db Messages)"
    by (simp add: empty_db_def store_ok_def)
  show ?thesis
    using v ok storeMessage_idempotent [OF v ok, where P = demo_primitives and R = demo_runtime
        and key = "[1, 2, 3]" and ?rnd1.0 = "[7, 7]" and ?clock1.0 = "''t1''"
        and ?rnd2.0 = "[8, 8]" and ?clock2.0 = "''t2''"]
    by simp
qed

text \<open>On a database that \<open>getDb\<close> created, the store \<open>messages\<close> has the index \<open>by-updated\<close>
  and no other.\<close>

lemma getDb_no_database: "getDb no_database = Inr created_database"
proof -
  have "(\<lambda>s. [])(Keys := u, Contacts := u, Conversations := u, Messages := u, Settings := u) = (\<lambda>s. u)"
    for u :: "string list"
  proof (rule ext)
    fix s :: StoreName
    show "((\<lambda>s. [])(Keys := u, Contacts := u, Conversations := u, Messages := u, Settings := u)) s = u"
      by (cases s) simp_all
  qed
  then show ?thesis
    by (simp add: getDb_def no_database_def created_database_def upgradeDb_def createStore_def)
qed

lemma getDb_created_database: "getDb created_database = Inr created_database"
  by (simp add: getDb_def created_database_def)

text \<open>Where the index exists and no bound is given, the first row that the loop looks at
  ends the call, whether it decrypts or not.\<close>

lemma scanMessages_first_row_throws:
  "num_lt (Fin (of_nat count)) limit \<Longrightarrow>
   scanMessages P R key limit None None active (row # rest) msgs count
     = Inl (DOMException ''TransactionInactiveError'')"
  by (simp add: cursorContinue_def split: sum.splits)

text \<open>
  C8, at the inputs where it fails. On the database that this code creates, be it created
  by this call or by an earlier one, whatever the store holds and whatever the arguments
  are, \<open>listMessages\<close> rejects with the
  \<open>NotFoundError\<close> of \<open>store.index('by-timestamp')\<close>: \<open>getDb\<close> adds that index only to a
  store \<open>messages\<close> that exists before the stores are created. On a database of an earlier
  version, which gets the index, a messages store that holds the one row which
  \<open>storeMessage\<close> wrote for a valid envelope, listed with the default limit and without
  bounds: the row decrypts and is collected, and \<open>listMessages\<close> rejects with the
  \<open>TransactionInactiveError\<close> of the \<open>cursor.continue()\<close> that follows, instead of returning
  the one message.
\<close>

theorem listMessages_throws:
  "fst (listMessages P R key limit before after no_database d) = Inl (DOMException ''NotFoundError'')
   \<and> fst (listMessages P R key limit before after created_database d)
       = Inl (DOMException ''NotFoundError'')
   \<and> fst (listMessages demo_primitives demo_runtime [1, 2, 3] None None None legacy_database
            (snd (storeMessage demo_primitives demo_runtime [1, 2, 3] demo_envelope [9, 9] ''now'' empty_db)))
       = Inl (DOMException ''TransactionInactiveError'')"
proof (intro conjI)
  show "fst (listMessages P R key limit before after no_database d) = Inl (DOMException ''NotFoundError'')"
    by (simp add: listMessages_def getDb_no_database created_database_def)
  show "fst (listMessages P R key limit before after created_database d)
       = Inl (DOMException ''NotFoundError'')"
    by (simp add: listMessages_def getDb_created_database) (simp add: created_database_def)
  show "fst (listMessages demo_primitives demo_runtime [1, 2, 3] None None None legacy_database
            (snd (storeMessage demo_primitives demo_runtime [1, 2, 3] demo_envelope [9, 9] ''now'' empty_db)))
       = Inl (DOMException ''TransactionInactiveError'')"
    by code_simp
qed

subsection \<open>Unlocking\<close>

lemma unlockBody_invalid:
  assumes "\<not> isValidEthereumAddress address \<or> \<not> isValidSignatureFormat signature"
  shows "\<exists>m \<in> set [''Missing address for unlock.'', ''Invalid Ethereum address format.'',
                  ''Missing signature for unlock.'', ''Invalid signature format.''].
           unlockBody P signature address fresh rnd now d = (Inl (Error m), d)"
proof (cases "address = []")
  case True
  then show ?thesis by (simp add: unlockBody_def)
next
  case a: False
  show ?thesis
  proof (cases "isValidEthereumAddress address")
    case False
    with a show ?thesis by (simp add: unlockBody_def)
  next
    case b: True
    show ?thesis
    proof (cases "signature = []")
      case True
      with a b show ?thesis by (simp add: unlockBody_def)
    next
      case False
      with a b assms show ?thesis by (simp add: unlockBody_def)
    qed
  qed
qed

text \<open>
  C5. When the address does not match \<open>^0x[0-9a-fA-F]{40}$\<close> or the signature is not 130
  hexadecimal digits after an optional \<open>0x\<close>, \<open>unlockFromSignature\<close> ends with the session in
  the error state, carrying one of the four messages of the input checks, and with the ref
  and the database exactly as they were: no request was issued against the database, so
  the DSK row was not read. The function returns a state; nothing escapes it.
\<close>

theorem unlock_validates_first:
  assumes "\<not> isValidEthereumAddress address \<or> \<not> isValidSignatureFormat signature"
  shows "\<exists>m. unlockFromSignature P signature address fresh rnd now st = st\<lparr>session := SessionError m\<rparr>
          \<and> m \<in> set [''Missing address for unlock.'', ''Invalid Ethereum address format.'',
                  ''Missing signature for unlock.'', ''Invalid signature format.'']"
proof -
  from unlockBody_invalid [OF assms]
  obtain m where m: "m \<in> set [''Missing address for unlock.'', ''Invalid Ethereum address format.'',
                  ''Missing signature for unlock.'', ''Invalid signature format.'']"
    and body: "unlockBody P signature address fresh rnd now (vault st) = (Inl (Error m), vault st)"
    by blast
  have "unlockFromSignature P signature address fresh rnd now st = st\<lparr>session := SessionError m\<rparr>"
    by (simp add: unlockFromSignature_def body)
  with m show ?thesis by blast
qed

theorem unlock_validates_first_witness:
  "\<not> isValidEthereumAddress ''0x123456789012345678901234567890123456789''
   \<and> (\<exists>m. unlockFromSignature demo_primitives (demo_signature ''ab'')
              ''0x123456789012345678901234567890123456789'' [] [] ''t0'' locked_state
            = locked_state\<lparr>session := SessionError m\<rparr>
          \<and> m \<in> set [''Missing address for unlock.'', ''Invalid Ethereum address format.'',
                  ''Missing signature for unlock.'', ''Invalid signature format.''])"
proof -
  have a: "\<not> isValidEthereumAddress ''0x123456789012345678901234567890123456789''"
    by (simp add: isValidEthereumAddress_def)
  then have h: "\<not> isValidEthereumAddress ''0x123456789012345678901234567890123456789''
             \<or> \<not> isValidSignatureFormat (demo_signature ''ab'')"
    by (rule disjI1)
  show ?thesis
    using a unlock_validates_first [OF h, of demo_primitives "[]" "[]" "''t0''" locked_state]
    by blast
qed

lemma hexPairs_total:
  "even (length s) \<Longrightarrow> list_all isHexChar s \<Longrightarrow> \<exists>bs. hexPairs s = Some bs"
  by (induction s rule: hexPairs.induct) (auto simp: isHexChar_def)



subsection \<open>Backup and restore\<close>

lemma trim_short_nonempty: "8 \<le> length (trim p) \<Longrightarrow> \<not> passphraseTooShort p"
  by (auto simp: passphraseTooShort_def trim_def)

lemma stores_readStores: "readStores ss d = (c, d') \<Longrightarrow> stores d' = stores d"
proof (induction ss arbitrary: d c d')
  case Nil
  then show ?case by simp
next
  case (Cons s ss)
  let ?d1 = "d\<lparr>oplog := oplog d @ [DbGetAll s]\<rparr>"
  obtain rest d2 where r: "readStores ss ?d1 = (rest, d2)"
    by (cases "readStores ss ?d1")
  from Cons.IH [OF r] have "stores d2 = stores d" by simp
  with Cons.prems r show ?case by (simp add: db_getAll_def)
qed

text \<open>
  C9 as stated fails: a passphrase of eight blanks has length 8 and is rejected, because
  the check measures the passphrase without its leading and trailing white space.
\<close>

theorem exportEncryptedBackup_length8_counterexample:
  "8 \<le> length ''        ''
   \<and> fst (exportEncryptedBackup demo_primitives demo_runtime ''        '' (replicate 16 1) (replicate 12 2)
            ''t0'' ''t1'' empty_db)
       = Inl (Error ''Passphrase must be at least 8 characters.'')"
  by code_simp


text \<open>
  C9, amended. \<open>exportEncryptedBackup\<close> rejects a passphrase exactly when its length after
  trimming leading and trailing white space is less than 8: then it fails with the
  passphrase error and the database is as before, no store having been read; otherwise the
  check passes and the export returns a backup file, leaving the rows as they were.
\<close>

theorem exportEncryptedBackup_passphrase_check:
  "(length (trim passphrase) < 8 \<longrightarrow>
      exportEncryptedBackup P R passphrase salt ivRnd exportedAt created d
        = (Inl (Error ''Passphrase must be at least 8 characters.''), d))
   \<and> (8 \<le> length (trim passphrase) \<longrightarrow>
        (\<exists>file d'. exportEncryptedBackup P R passphrase salt ivRnd exportedAt created d = (Inr file, d')
           \<and> stores d' = stores d))"
proof (intro conjI impI)
  assume "length (trim passphrase) < 8"
  then show "exportEncryptedBackup P R passphrase salt ivRnd exportedAt created d
        = (Inl (Error ''Passphrase must be at least 8 characters.''), d)"
    by (simp add: exportEncryptedBackup_def passphraseTooShort_def)
next
  assume "8 \<le> length (trim passphrase)"
  then have ok: "\<not> passphraseTooShort passphrase" by (rule trim_short_nonempty)
  obtain contents d1 where r: "readStores allStores d = (contents, d1)"
    by (cases "readStores allStores d")
  have "stores d1 = stores d" using stores_readStores [OF r] .
  then show "\<exists>file d'. exportEncryptedBackup P R passphrase salt ivRnd exportedAt created d = (Inr file, d')
           \<and> stores d' = stores d"
    using ok r by (simp add: exportEncryptedBackup_def Let_def)
qed

theorem exportEncryptedBackup_passphrase_check_witness:
  "length (trim ''  abc  '') < 8
   \<and> exportEncryptedBackup demo_primitives demo_runtime ''  abc  '' (replicate 16 1) (replicate 12 2)
         ''t0'' ''t1'' empty_db
       = (Inl (Error ''Passphrase must be at least 8 characters.''), empty_db)
   \<and> 8 \<le> length (trim '' correct horse '')
   \<and> (\<exists>file d'. exportEncryptedBackup demo_primitives demo_runtime '' correct horse '' (replicate 16 1)
                    (replicate 12 2) ''t0'' ''t1'' empty_db = (Inr file, d')
          \<and> stores d' = stores empty_db)"
proof -
  have short: "length (trim ''  abc  '') < 8" by code_simp
  have long: "8 \<le> length (trim '' correct horse '')" by code_simp
  from short exportEncryptedBackup_passphrase_check
         [where passphrase = "''  abc  ''" and P = demo_primitives and R = demo_runtime
            and salt = "replicate 16 1" and ivRnd = "replicate 12 2" and exportedAt = "''t0''"
            and created = "''t1''" and d = empty_db]
  have a: "exportEncryptedBackup demo_primitives demo_runtime ''  abc  '' (replicate 16 1) (replicate 12 2)
         ''t0'' ''t1'' empty_db
       = (Inl (Error ''Passphrase must be at least 8 characters.''), empty_db)"
    by blast
  from long exportEncryptedBackup_passphrase_check
         [where passphrase = "'' correct horse ''" and P = demo_primitives and R = demo_runtime
            and salt = "replicate 16 1" and ivRnd = "replicate 12 2" and exportedAt = "''t0''"
            and created = "''t1''" and d = empty_db]
  have b: "\<exists>file d'. exportEncryptedBackup demo_primitives demo_runtime '' correct horse '' (replicate 16 1)
                    (replicate 12 2) ''t0'' ''t1'' empty_db = (Inr file, d')
          \<and> stores d' = stores empty_db"
    by blast
  from short long a b show ?thesis by blast
qed

text \<open>
  C3. Whatever the backup file and the passphrase, when \<open>importEncryptedBackup\<close> throws, the
  database is exactly as before the call, rows and issued requests; and when it returns,
  the file passed the schema and the structural validation, its ciphertext opened under
  the key derived from the passphrase, the recomputed SHA-256 of the plaintext equalled the
  stored hash, the plaintext parsed, every row of every store was validated and
  deserialized, and the database is the result of writing those rows into the reset vault.
  (The requests to the storage engine are taken to succeed.)
\<close>

theorem importEncryptedBackup_validates_before_mutating:
  "(case importEncryptedBackup P R passphrase fileJson mode d of
      (Inl e, d') \<Rightarrow> d' = d
    | (Inr u, d') \<Rightarrow>
        (\<exists>file salt i ct plaintextBytes payloadUnknown payload preparedData.
           EncryptedBackupFileSchema R fileJson
         \<and> validateEncryptedBackupFileV1 fileJson = Inr file
         \<and> fromHex (bf_saltHex file) = Inr salt
         \<and> fromHex (bf_ivHex file) = Inr i
         \<and> fromHex (bf_ciphertextHex file) = Inr ct
         \<and> aes_gcm_decrypt P (deriveBackupKey P passphrase salt (bf_iterations file)) i (Some BACKUP_AAD) ct
             = Some plaintextBytes
         \<and> sha256Hex P plaintextBytes = bf_plaintextHashHex file
         \<and> json_parse R (textDecode R plaintextBytes) = Some payloadUnknown
         \<and> validateBackupPayloadV1 payloadUnknown = Inr payload
         \<and> prepareData payload = Inr preparedData
         \<and> d' = restoreData preparedData (resetVault d)))"
  by (auto simp: importEncryptedBackup_def Let_def decryptBackupPayload_def
           split: sum.splits option.splits)



text \<open>A run that passes every check: the vault that held a wrapped DSK is replaced by the
  one row of the backup.\<close>

lemma importEncryptedBackup_restores_example:
  "(case importEncryptedBackup demo_primitives demo_runtime2 ''correct horse''
           (demo_backup_file demo_good_hash) None (vault demo_wrapped_state) of
      (res, d') \<Rightarrow>
        res = Inr ()
        \<and> stores d' Keys
            = [\<lparr>row_id = ''dsk'',
                 blob = \<lparr>iv = [0, 1, 2, 3, 4, 5, 6, 7, 8, 9, 10, 11], ciphertext = [192, 255, 238]\<rparr>,
                 createdAt = ''t0'', updatedAt = ''t0''\<rparr>]
        \<and> stores d' Messages = [])"
  by code_simp

theorem importEncryptedBackup_validates_before_mutating_witness:
  "importEncryptedBackup demo_primitives demo_runtime2 ''correct horse''
       (demo_backup_file demo_bad_hash) None (vault demo_wrapped_state)
     = (Inl (Error ''Backup integrity check failed (hash mismatch).''), vault demo_wrapped_state)"
proof -
  let ?r = "importEncryptedBackup demo_primitives demo_runtime2 ''correct horse''
              (demo_backup_file demo_bad_hash) None (vault demo_wrapped_state)"
  have thrown: "fst ?r = Inl (Error ''Backup integrity check failed (hash mismatch).'')"
    by code_simp
  from importEncryptedBackup_validates_before_mutating
         [where P = demo_primitives and R = demo_runtime2 and passphrase = "''correct horse''"
            and fileJson = "demo_backup_file demo_bad_hash" and mode = None
            and d = "vault demo_wrapped_state"]
       thrown
  have "snd ?r = vault demo_wrapped_state"
    by (cases ?r) auto
  with thrown show ?thesis by (cases ?r) auto
qed

subsection \<open>Envelope validation\<close>

lemma hexPairs_char:
  "(case hexPairs s of None \<Rightarrow> False | Some bs \<Rightarrow> Q (length bs))
     = (even (length s) \<and> list_all isHexChar s \<and> Q (length s div 2))"
proof (induction s arbitrary: Q rule: hexPairs.induct)
  case 1
  then show ?case by simp
next
  case (2 c)
  then show ?case by simp
next
  case (3 a b cs)
  show ?case
  proof (cases "hexVal a")
    case None
    then show ?thesis by (simp add: isHexChar_def)
  next
    case ha: (Some h)
    show ?thesis
    proof (cases "hexVal b")
      case None
      with ha show ?thesis by (simp add: isHexChar_def)
    next
      case hb: (Some l)
      from "3.IH" [of "\<lambda>n. Q (Suc n)"] ha hb show ?thesis
        by (simp add: isHexChar_def split: option.splits)
    qed
  qed
qed

lemma even_pos_half: "even (n::nat) \<Longrightarrow> 0 < n \<Longrightarrow> Suc 0 \<le> n div 2"
  by (auto elim!: evenE)

lemma zVersion_iff: "(zVersion j \<noteq> None) = (j = JNum (Fin 1))"
proof (cases j)
  case (JNum n)
  then show ?thesis
    by (cases n) (auto simp: zVersion_def isInteger_def)
qed (simp_all add: zVersion_def)

lemma zAddress_iff: "(zAddress R j \<noteq> None) = addressValue R j"
  by (cases j) (simp_all add: zAddress_def addressValue_def)

lemma zDatetimeString_iff: "(zDatetimeString R j \<noteq> None) = zDatetime R j"
  by (cases j) (simp_all add: zDatetimeString_def zDatetime_def)

lemma zHex_iff:
  assumes "\<And>s. (hexString s \<and> refine (length s)) = (even (length s) \<and> list_all isHexChar s \<and> count (length s div 2))"
  shows "(zHex refine j \<noteq> None) = hexOfBytes count j"
  using assms by (cases j) (simp_all add: zHex_def hexOfBytes_def hexPairs_char)

lemma zHex_nonce: "(zHex (\<lambda>n. n = 32) j \<noteq> None) = hexOfBytes (\<lambda>n. n = 16) j"
  by (rule zHex_iff) (auto simp: hexString_def)

lemma zHex_iv: "(zHex (\<lambda>n. n = 24) j \<noteq> None) = hexOfBytes (\<lambda>n. n = 12) j"
  by (rule zHex_iff) (auto simp: hexString_def)

lemma zHex_ciphertext: "(zHex (\<lambda>n. n > 0) j \<noteq> None) = hexOfBytes (\<lambda>n. 1 \<le> n) j"
  by (rule zHex_iff) (auto simp: hexString_def even_pos_half)

lemma zOptionalHex_iff:
  "(zOptionalHex j \<noteq> None) = (j = JUndefined \<or> hexOfBytes (\<lambda>n. 1 \<le> n) j)"
proof (cases j)
  case (JStr s)
  have "hexString s = (even (length s) \<and> list_all isHexChar s \<and> 1 \<le> length s div 2)"
    by (auto simp: hexString_def even_pos_half)
  with JStr show ?thesis by (simp add: zOptionalHex_def hexOfBytes_def hexPairs_char)
qed (simp_all add: zOptionalHex_def hexOfBytes_def)

lemma MessageEnvelopeSchema_iff:
  "(MessageEnvelopeSchema R input \<noteq> None) = envelope_acceptable R input"
proof (cases input)
  case (JObj kvs)
  have "(MessageEnvelopeSchema R input \<noteq> None) =
        (zVersion (getProp kvs ''v'') \<noteq> None \<and> zAddress R (getProp kvs ''from'') \<noteq> None
         \<and> zAddress R (getProp kvs ''to'') \<noteq> None \<and> zDatetimeString R (getProp kvs ''ts'') \<noteq> None
         \<and> zHex (\<lambda>n. n = 32) (getProp kvs ''nonce'') \<noteq> None
         \<and> zHex (\<lambda>n. n = 24) (getProp kvs ''iv'') \<noteq> None
         \<and> zHex (\<lambda>n. n > 0) (getProp kvs ''ciphertext'') \<noteq> None
         \<and> zOptionalHex (getProp kvs ''aad'') \<noteq> None)"
    unfolding MessageEnvelopeSchema_def JObj
    by (simp add: bind_eq_None_conv)
  then show ?thesis
    unfolding envelope_acceptable_def JObj
    by (simp only: jsval.case zVersion_iff zAddress_iff zDatetimeString_iff zHex_nonce zHex_iv
          zHex_ciphertext zOptionalHex_iff)
qed (simp_all add: MessageEnvelopeSchema_def envelope_acceptable_def)

text \<open>An \<open>aad\<close> that is the empty string is rejected under every runtime.\<close>

lemma safeParseMessageEnvelope_empty_aad:
  "getProp kvs ''aad'' = JStr [] \<Longrightarrow>
   safeParseMessageEnvelope R (JObj kvs) = Inl ''Invalid message payload.''"
  by (simp add: safeParseMessageEnvelope_def MessageEnvelopeSchema_def zOptionalHex_def
        hexString_def Option.bind_eq_None_conv split: option.splits)

text \<open>
  C6 as stated fails. The envelope of the repository's test with an \<open>aad\<close> that is the
  empty string meets every condition as stated: the version is 1, both addresses are well
  formed, the timestamp is ISO-8601, nonce, iv and ciphertext decode to 16, 12 and 8
  bytes, and the \<open>aad\<close> is valid hexadecimal text, of no bytes. It is rejected.
\<close>

theorem safeParseMessageEnvelope_empty_aad_counterexample:
  "envelope_claimed (envelopeToJson (demo_envelope\<lparr>env_aad := Some []\<rparr>))
   \<and> hexPairs [] = Some []
   \<and> safeParseMessageEnvelope demo_runtime (envelopeToJson (demo_envelope\<lparr>env_aad := Some []\<rparr>))
       = Inl ''Invalid message payload.''"
  by code_simp

text \<open>
  C6, amended. \<open>safeParseMessageEnvelope\<close> accepts a value exactly when it is an object whose
  \<open>v\<close> is the number 1, whose \<open>from\<close> and \<open>to\<close> are strings that the address test accepts,
  whose \<open>ts\<close> is a string that the datetime test accepts, whose \<open>nonce\<close> is hexadecimal text
  of exactly 16 bytes, whose \<open>iv\<close> is hexadecimal text of exactly 12 bytes, whose
  \<open>ciphertext\<close> is hexadecimal text of at least one byte, and whose \<open>aad\<close> is absent or
  hexadecimal text of at least one byte; and every rejection carries the one message
  \<open>Invalid message payload.\<close>
\<close>

theorem safeParseMessageEnvelope_accepts_iff:
  "(\<exists>data. safeParseMessageEnvelope R input = Inr data) = envelope_acceptable R input
   \<and> (\<forall>err. safeParseMessageEnvelope R input = Inl err \<longrightarrow> err = ''Invalid message payload.'')"
  using MessageEnvelopeSchema_iff [of R input]
  by (auto simp: safeParseMessageEnvelope_def split: option.splits)

theorem safeParseMessageEnvelope_accepts_iff_witness:
  "envelope_acceptable demo_runtime (envelopeToJson demo_envelope)
   \<and> (\<exists>data. safeParseMessageEnvelope demo_runtime (envelopeToJson demo_envelope) = Inr data)
   \<and> safeParseMessageEnvelope demo_runtime JNull = Inl ''Invalid message payload.''"
proof -
  have a: "envelope_acceptable demo_runtime (envelopeToJson demo_envelope)" by code_simp
  with safeParseMessageEnvelope_accepts_iff [of demo_runtime "envelopeToJson demo_envelope"]
  have b: "\<exists>data. safeParseMessageEnvelope demo_runtime (envelopeToJson demo_envelope) = Inr data"
    by blast
  have "\<not> envelope_acceptable demo_runtime JNull" by (simp add: envelope_acceptable_def)
  with safeParseMessageEnvelope_accepts_iff [of demo_runtime JNull]
  have c: "safeParseMessageEnvelope demo_runtime JNull = Inl ''Invalid message payload.''"
    by (cases "safeParseMessageEnvelope demo_runtime JNull") auto
  from a b c show ?thesis by blast
qed

subsection \<open>Conversation keys\<close>

lemma sort_pair_commute: "sort [x, y] = sort [y, x]" for x y :: "'a::linorder"
  by (cases "x \<le> y"; cases "y \<le> x") auto

lemma trim_nonempty: "\<not> isWhiteSpace c \<Longrightarrow> trim (c # cs) \<noteq> []"
  by (simp add: trim_def dropWhile_eq_Nil_conv)

lemma valid_address_trim: "isValidEthereumAddress a \<Longrightarrow> length (trim a) \<noteq> 0"
proof -
  assume v: "isValidEthereumAddress a"
  then obtain cs where a: "a = CHR ''0'' # cs"
    by (cases a) (auto simp: isValidEthereumAddress_def)
  have "\<not> isWhiteSpace CHR ''0''" by (simp add: isWhiteSpace_def)
  then show ?thesis unfolding a using trim_nonempty by simp
qed

text \<open>
  C1. Two parties with 32-byte keys that are not all zero, valid addresses and a
  non-negative integer epoch, whose key agreements yield the same shared secret (and an
  HKDF that returns the 32 bytes it is asked for): \<open>deriveConversationKey\<close> called by one
  party with its private key, the peer's public key and the addresses in its order, and
  called by the other party with the roles swapped, returns the same key material and the
  same conversation id; the key is the HKDF of the shared secret under the info string of
  the two lowercased addresses in sorted order and the epoch, and the id is the hexadecimal
  text of its first 16 bytes.
\<close>

theorem deriveConversationKey_symmetric:
  assumes keys: "length privA = 32" "length pubA = 32" "length privB = 32" "length pubB = 32"
    and nonzero: "\<not> list_all (\<lambda>b. b = 0) privA" "\<not> list_all (\<lambda>b. b = 0) pubA"
                 "\<not> list_all (\<lambda>b. b = 0) privB" "\<not> list_all (\<lambda>b. b = 0) pubB"
    and addrs: "isValidEthereumAddress addrA" "isValidEthereumAddress addrB"
    and epoch: "isInteger epoch" "\<not> num_lt epoch (Fin 0)"
    and ecdh: "x25519_getSharedSecret P privA pubB = Inr secret"
              "x25519_getSharedSecret P privB pubA = Inr secret"
    and hkdf: "\<forall>ikm salt info. length (hkdf_sha256 P ikm salt info 32) = 32"
  shows "\<exists>spec. deriveConversationKey P R privA pubB addrA addrB (Some epoch) = Inr spec
             \<and> deriveConversationKey P R privB pubA addrB addrA (Some epoch) = Inr spec
             \<and> ck_key spec
                 = hkdf_sha256 P secret CONVERSATION_SALT
                     (utf8Encode (''retrochat:conversation:hkdf:v1|''
                        @ sort [toLowerCase addrA, toLowerCase addrB] ! 0 @ ''|''
                        @ sort [toLowerCase addrA, toLowerCase addrB] ! 1 @ ''|epoch=''
                        @ numberToString R epoch)) 32
             \<and> ck_id spec = toHex (take 16 (ck_key spec))"
proof -
  have vk: "validateKey R privA l = Inr ()" "validateKey R pubA l = Inr ()"
           "validateKey R privB l = Inr ()" "validateKey R pubB l = Inr ()" for l
    using keys by (simp_all add: validateKey_def X25519_KEY_LENGTH_def)
  have va: "validateAddress addrA l = Inr ()" "validateAddress addrB l = Inr ()" for l
    using addrs valid_address_trim [of addrA] valid_address_trim [of addrB]
    by (simp_all add: validateAddress_def isValidEthereumAddress_def)
  have ve: "validateEpoch epoch = Inr ()"
    using epoch by (simp add: validateEpoch_def)
  have ssA: "deriveSharedSecret P R privA pubB = Inr secret"
    using keys nonzero ecdh
    by (simp add: deriveSharedSecret_def validateX25519Key_def X25519_KEY_LENGTH_def bindE_def)
  have ssB: "deriveSharedSecret P R privB pubA = Inr secret"
    using keys nonzero ecdh
    by (simp add: deriveSharedSecret_def validateX25519Key_def X25519_KEY_LENGTH_def bindE_def)
  define sorted where "sorted = sort [toLowerCase addrA, toLowerCase addrB]"
  have sorted': "sort [toLowerCase addrB, toLowerCase addrA] = sorted"
    unfolding sorted_def by (rule sort_pair_commute)
  define km where "km = hkdfSha256 P secret CONVERSATION_SALT
      (utf8Encode (''retrochat:conversation:hkdf:v1|'' @ sorted ! 0 @ ''|'' @ sorted ! 1 @ ''|epoch=''
                     @ numberToString R epoch)) 32"
  have imp: "importAesGcmKey km = Inr km"
    using hkdf by (simp add: km_def hkdfSha256_def importAesGcmKey_def)
  let ?spec = "\<lparr>ck_key = km, ck_id = toHex (take 16 km)\<rparr>"
  have A: "deriveConversationKey P R privA pubB addrA addrB (Some epoch) = Inr ?spec"
    unfolding deriveConversationKey_def Let_def
    by (simp only: vk va ve ssA bindE_def sum.case option.case sorted_def [symmetric]
          km_def [symmetric] imp CONVERSATION_ID_LENGTH_def)
  have B: "deriveConversationKey P R privB pubA addrB addrA (Some epoch) = Inr ?spec"
    unfolding deriveConversationKey_def Let_def
    by (simp only: vk va ve ssB bindE_def sum.case option.case sorted'
          km_def [symmetric] imp CONVERSATION_ID_LENGTH_def)
  have K: "ck_key ?spec
      = hkdf_sha256 P secret CONVERSATION_SALT
          (utf8Encode (''retrochat:conversation:hkdf:v1|''
             @ sort [toLowerCase addrA, toLowerCase addrB] ! 0 @ ''|''
             @ sort [toLowerCase addrA, toLowerCase addrB] ! 1 @ ''|epoch=''
             @ numberToString R epoch)) 32"
    by (simp add: km_def hkdfSha256_def sorted_def)
  have I: "ck_id ?spec = toHex (take 16 (ck_key ?spec))" by simp
  from A B K I show ?thesis by blast
qed

theorem deriveConversationKey_symmetric_witness:
  "length demo_privA = 32 \<and> length (demo_public demo_privA) = 32
   \<and> length demo_privB = 32 \<and> length (demo_public demo_privB) = 32
   \<and> \<not> list_all (\<lambda>b. b = 0) demo_privA \<and> \<not> list_all (\<lambda>b. b = 0) (demo_public demo_privA)
   \<and> \<not> list_all (\<lambda>b. b = 0) demo_privB \<and> \<not> list_all (\<lambda>b. b = 0) (demo_public demo_privB)
   \<and> isValidEthereumAddress demo_address \<and> isValidEthereumAddress demo_addressB
   \<and> isInteger (Fin 0) \<and> \<not> num_lt (Fin 0) (Fin 0)
   \<and> x25519_getSharedSecret demo_primitives demo_privA (demo_public demo_privB) = Inr (replicate 32 217)
   \<and> x25519_getSharedSecret demo_primitives demo_privB (demo_public demo_privA) = Inr (replicate 32 217)
   \<and> (\<forall>ikm salt info. length (hkdf_sha256 demo_primitives ikm salt info 32) = 32)
   \<and> (\<exists>spec. deriveConversationKey demo_primitives demo_runtime demo_privA (demo_public demo_privB)
                 demo_address demo_addressB (Some (Fin 0)) = Inr spec
             \<and> deriveConversationKey demo_primitives demo_runtime demo_privB (demo_public demo_privA)
                 demo_addressB demo_address (Some (Fin 0)) = Inr spec
             \<and> ck_id spec = toHex (take 16 (ck_key spec)))"
proof -
  have k1: "length demo_privA = 32" by (simp add: demo_privA_def)
  have k2: "length (demo_public demo_privA) = 32" by (simp add: demo_privA_def demo_public_def)
  have k3: "length demo_privB = 32" by (simp add: demo_privB_def)
  have k4: "length (demo_public demo_privB) = 32" by (simp add: demo_privB_def demo_public_def)
  have z1: "\<not> list_all (\<lambda>b. b = 0) demo_privA" by code_simp
  have z2: "\<not> list_all (\<lambda>b. b = 0) (demo_public demo_privA)" by code_simp
  have z3: "\<not> list_all (\<lambda>b. b = 0) demo_privB" by code_simp
  have z4: "\<not> list_all (\<lambda>b. b = 0) (demo_public demo_privB)" by code_simp
  have a1: "isValidEthereumAddress demo_address" by code_simp
  have a2: "isValidEthereumAddress demo_addressB" by code_simp
  have e1: "isInteger (Fin 0)" by (simp add: isInteger_def)
  have e2: "\<not> num_lt (Fin 0) (Fin 0)" by simp
  have s1: "x25519_getSharedSecret demo_primitives demo_privA (demo_public demo_privB) = Inr (replicate 32 217)"
    by code_simp
  have s2: "x25519_getSharedSecret demo_primitives demo_privB (demo_public demo_privA) = Inr (replicate 32 217)"
    by code_simp
  have h: "\<forall>ikm salt info. length (hkdf_sha256 demo_primitives ikm salt info 32) = 32"
    by (auto simp: demo_primitives_def min_def)
  from deriveConversationKey_symmetric [OF k1 k2 k3 k4 z1 z2 z3 z4 a1 a2 e1 e2 s1 s2 h, of demo_runtime]
  obtain spec where "deriveConversationKey demo_primitives demo_runtime demo_privA (demo_public demo_privB)
                 demo_address demo_addressB (Some (Fin 0)) = Inr spec"
    and "deriveConversationKey demo_primitives demo_runtime demo_privB (demo_public demo_privA)
                 demo_addressB demo_address (Some (Fin 0)) = Inr spec"
    and "ck_id spec = toHex (take 16 (ck_key spec))"
    by blast
  then have r: "\<exists>spec. deriveConversationKey demo_primitives demo_runtime demo_privA (demo_public demo_privB)
                 demo_address demo_addressB (Some (Fin 0)) = Inr spec
             \<and> deriveConversationKey demo_primitives demo_runtime demo_privB (demo_public demo_privA)
                 demo_addressB demo_address (Some (Fin 0)) = Inr spec
             \<and> ck_id spec = toHex (take 16 (ck_key spec))"
    by blast
  from k1 k2 k3 k4 z1 z2 z3 z4 a1 a2 e1 e2 s1 s2 h r show ?thesis by blast
qed

end
